theory Spec2Isabelle
  imports Main "HOL-Library.List_Lexorder"
begin

section \<open>The package-manager daemon of linyaps: a shallow embedding\<close>

text \<open>
  The theory embeds \<^verbatim>\<open>libs/linglong/src/linglong/package_manager/package_manager.cpp\<close>.
  The layer store (\<^verbatim>\<open>OSTreeRepo\<close>), the task registry, the reference classes and the
  container runtime are collaborators whose code is not part of the sources: they enter
  every definition as the parameter \<open>env\<close>, a record of functions over an abstract
  world state. Every call the package manager makes on a collaborator is appended to a
  trace, so that a statement about what the engine does is a statement about the list of
  calls it makes.
\<close>

subsection \<open>Parsing the deferred-uninstall interval (the constructor)\<close>

text \<open>
  \<^verbatim>\<open>std::stoi(str)\<close> of the C++ standard library: \<^verbatim>\<open>strtol\<close> skips leading white space,
  reads an optional sign and the longest run of decimal digits; with no digit it throws
  \<^verbatim>\<open>std::invalid_argument\<close>, with a value outside \<^verbatim>\<open>int\<close> it throws
  \<^verbatim>\<open>std::out_of_range\<close>. Characters after the digits are ignored.
\<close>

datatype stoi_exception = invalid_argument | out_of_range

definition isspace_c :: "char \<Rightarrow> bool" where
  "isspace_c c = (c \<in> set [CHR '' '', CHR 0x09, CHR 0x0A, CHR 0x0B, CHR 0x0C, CHR 0x0D])"

definition isdigit_c :: "char \<Rightarrow> bool" where
  "isdigit_c c = (c \<in> set ''0123456789'')"

definition digit_value :: "char \<Rightarrow> int" where
  "digit_value c = int (of_char c) - 48"

definition digits_value :: "string \<Rightarrow> int" where
  "digits_value ds = foldl (\<lambda>acc c. 10 * acc + digit_value c) 0 ds"

definition INT_MAX :: int where
  "INT_MAX = 2147483647"

definition INT_MIN :: int where
  "INT_MIN = - 2147483648"

definition stoi :: "string \<Rightarrow> stoi_exception + int" where
  "stoi str =
    (let s1 = dropWhile isspace_c str;
         negative = (case s1 of c # _ \<Rightarrow> c = CHR ''-'' | [] \<Rightarrow> False);
         s2 = (case s1 of c # cs \<Rightarrow> (if c = CHR ''-'' \<or> c = CHR ''+'' then cs else s1) | [] \<Rightarrow> s1);
         ds = takeWhile isdigit_c s2;
         v = (if negative then - digits_value ds else digits_value ds)
     in if ds = [] then Inl invalid_argument
        else if v < INT_MIN \<or> INT_MAX < v then Inl out_of_range
        else Inr v)"

text \<open>
  What the log receives: \<^verbatim>\<open>qInfo\<close>, \<^verbatim>\<open>qWarning\<close> and \<^verbatim>\<open>qCritical\<close> lines. The text of
  a line is not modelled, only its severity.
\<close>

datatype severity = Info | Warning | Critical

text \<open>
  The constructor \<^verbatim>\<open>PackageManager::PackageManager\<close>, lines 106 to 130. Its argument is
  what \<^verbatim>\<open>getenv("LINGLONG_DEFERRED_TIMEOUT")\<close> returns (\<open>None\<close> for a null pointer). The
  result is \<open>Inl\<close> an exception that leaves the constructor, or \<open>Inr\<close> the interval of the
  timer in seconds with the lines logged on the way.
\<close>

record daemon =
  deferredTimeOut :: int
  ctor_log :: "severity list"

definition PackageManager_ctor :: "string option \<Rightarrow> stoi_exception + daemon" where
  "PackageManager_ctor deferredTimeOutEnv =
    (let start = \<lparr>deferredTimeOut = 3600, ctor_log = []\<rparr>;
         parsed =
           (case deferredTimeOutEnv of
              None \<Rightarrow> start
            | Some str \<Rightarrow>
                (case stoi str of
                   Inr n \<Rightarrow> start\<lparr>deferredTimeOut := n * 1\<rparr>
                 | Inl invalid_argument \<Rightarrow> start\<lparr>ctor_log := [Warning]\<rparr>
                 | Inl out_of_range \<Rightarrow> start\<lparr>ctor_log := [Warning]\<rparr>))
     in Inr (parsed\<lparr>ctor_log := ctor_log parsed @ [Info]\<rparr>))"

subsection \<open>Data of the engine\<close>

text \<open>
  Modelled from the spec: \<^verbatim>\<open>package::Version\<close> is declared outside the sources; the spec
  gives versions a total order on their dotted numeric components. A version is the list
  of its components under the lexicographic order.
\<close>

type_synonym version = "nat list"

text \<open>\<^verbatim>\<open>package::Reference\<close>: channel, id, version, architecture.\<close>

record reference =
  channel :: string
  id_ref :: string
  version :: version
  arch :: string

text \<open>\<^verbatim>\<open>package::FuzzyReference\<close>: only the id is required.\<close>

record fuzzy_reference =
  fuzzy_channel :: "string option"
  fuzzy_id :: string
  fuzzy_version :: "version option"
  fuzzy_arch :: "string option"

text \<open>\<^verbatim>\<open>api::types::v1::PackageInfoV2\<close>, the fields the engine reads.\<close>

record PackageInfoV2 =
  info_arch :: "string list"
  info_base :: string
  info_channel :: string
  info_id :: string
  info_kind :: string
  packageInfoV2Module :: string
  info_runtime :: "string option"
  info_uuid :: "string option"
  info_version :: string

text \<open>\<^verbatim>\<open>api::types::v1::RepositoryCacheLayersItem\<close>.\<close>

record RepositoryCacheLayersItem =
  commit :: string
  item_info :: PackageInfoV2

text \<open>\<^verbatim>\<open>api::types::v1::ContainerProcessStateInfo\<close>: the file of one running container.\<close>

record ContainerProcessStateInfo =
  app :: string

text \<open>
  \<^verbatim>\<open>repo::repoCacheQuery\<close> and \<^verbatim>\<open>repo::clearReferenceOption\<close>. The calls name the
  members they set (designated initialisers); a member a call does not name is \<open>None\<close>,
  the default of the declaration, which is not part of the sources.
\<close>

record repoCacheQuery =
  query_id :: "string option"
  query_channel :: "string option"
  query_version :: "string option"
  query_deleted :: "bool option"

record clearReferenceOption =
  forceRemote :: "bool option"
  fallbackToRemote :: "bool option"

text \<open>\<^verbatim>\<open>package::LayerDir\<close>: whether the directory is valid and what \<^verbatim>\<open>info()\<close> reads.\<close>

record LayerDir =
  dir_path :: string
  dir_valid :: bool
  dir_info :: "PackageInfoV2 option"

datatype InteractionMessageType = Install_msg | Upgrade_msg

record AdditionalMessage =
  localRef_msg :: string
  remoteRef_msg :: string

text \<open>
  \<^verbatim>\<open>package::LayerFile\<close> as the engine reads it: the target of the descriptor's link and
  the package metadata of the file (\<open>None\<close> when \<^verbatim>\<open>metaInfo()\<close> fails). One layer of a
  bundle's manifest, \<^verbatim>\<open>api::types::v1::UabLayer\<close>.
\<close>

record LayerFile =
  symLinkTarget :: string
  metaInfo :: "string option"

record UabLayer =
  layer_info :: PackageInfoV2
  minified :: bool

text \<open>The parameters of the bus calls.\<close>

record CommonOptions =
  force :: bool
  skipInteraction :: bool

record PackageManager1Package =
  pkg_channel :: "string option"
  pkg_id :: string
  packageManager1PackageModule :: "string option"
  pkg_version :: "string option"

record PackageManager1InstallParameters =
  options :: CommonOptions
  package :: PackageManager1Package

record PackageManager1UninstallParameters =
  uninstall_package :: PackageManager1Package

text \<open>
  What comes back on \<^verbatim>\<open>ReplyReceived\<close> while a plan waits: nothing ever, a map that does
  not deserialise to an \<^verbatim>\<open>InteractionReply\<close>, or a reply with its \<open>action\<close>.
\<close>

datatype delivery = NoReply | Malformed | Reply string

text \<open>
  What an entry point returns on the bus: \<^verbatim>\<open>toDBusReply(code, message, type)\<close>,
  \<^verbatim>\<open>toDBusReply(result)\<close> of a collaborator's error (\<open>ErrorResult\<close>: code and message are
  the error's), or the \<^verbatim>\<open>PackageManager1PackageTaskResult\<close> of a queued task.
\<close>

datatype reply =
    CommonResult int string string
  | ErrorResult
  | PackageTaskResult string int string

subsection \<open>Tasks\<close>

datatype State = Queued | Processing | PartCompleted | Succeed | Failed | Canceled

datatype SubState =
  PreAction | InstallApplication | InstallBase | InstallRuntime | UninstallSub
  | PostAction | PackageManagerDone | AllDone

record PackageTask =
  state :: State
  subState :: SubState

text \<open>\<^verbatim>\<open>isTaskDone\<close>, lines 66 to 70.\<close>

definition isTaskDone :: "SubState \<Rightarrow> bool" where
  "isTaskDone s = (s = AllDone \<or> s = PackageManagerDone)"

text \<open>
  Modelled from the spec: \<^verbatim>\<open>PackageTask\<close> (\<^verbatim>\<open>package_task.h\<close>) is not part of the sources.
  Section 4.5 of the spec: once the sub-state is terminal, \<^verbatim>\<open>updateState\<close> and
  \<^verbatim>\<open>updateSubState\<close> are no-ops; sections 4.5 and 4.6.3: a task set to a final state
  (\<open>Succeed\<close>, \<open>Failed\<close>, \<open>Canceled\<close>) is observed as done by the next
  \<^verbatim>\<open>isTaskDone\<close> check, so the final states make the sub-state \<open>AllDone\<close>.
  \<^verbatim>\<open>reportError\<close> records a fatal error of a child step. The message of a task is not
  modelled.
\<close>

definition updateState :: "State \<Rightarrow> PackageTask \<Rightarrow> PackageTask" where
  "updateState newState t =
    (if isTaskDone (subState t) then t
     else t\<lparr>state := newState,
            subState := (if newState = Succeed \<or> newState = Failed \<or> newState = Canceled
                         then AllDone else subState t)\<rparr>)"

definition updateSubState :: "SubState \<Rightarrow> PackageTask \<Rightarrow> PackageTask" where
  "updateSubState newSubState t =
    (if isTaskDone (subState t) then t else t\<lparr>subState := newSubState\<rparr>)"

definition reportError :: "PackageTask \<Rightarrow> PackageTask" where
  "reportError t = updateState Failed t"

subsection \<open>The trace of calls\<close>

text \<open>
  One constructor for each call the engine makes on a collaborator, with its arguments.
  \<open>LockRepo\<close> and \<open>UnlockRepo\<close> carry whether the call succeeded; \<open>ClearReference\<close> and
  \<open>GetModuleList\<close> carry what the store answered. \<open>RemoveCache\<close> and \<open>GenerateCache\<close> mark
  the entry into the engine's own \<^verbatim>\<open>removeCache\<close> and \<^verbatim>\<open>generateCache\<close>.
  \<open>ConnectReplyReceived\<close> and \<open>DisconnectReplyReceived\<close> are \<^verbatim>\<open>connect\<close> and \<^verbatim>\<open>disconnect\<close> of a
  handler on the signal \<^verbatim>\<open>ReplyReceived\<close>.
\<close>

datatype event =
    LockRepo bool
  | UnlockRepo bool
  | GetAllRunningContainers
  | ListLocalBy repoCacheQuery
  | ListLocal
  | ClearReference fuzzy_reference clearReferenceOption "string option" "reference option"
  | GetModuleList reference "string list"
  | GetRemoteModuleList reference "string list"
  | GetLayerItem reference
  | GetLayerDir reference "string option" "string option"
  | MarkDeleted reference bool string
  | UnexportReference reference
  | ExportReference reference
  | Remove reference string "string option"
  | MergeModules
  | Pull reference string
  | ImportLayerDir string "string list" "string option"
  | PruneRepo
  | RemoveCache reference
  | RemoveAll string
  | GenerateCache reference
  | AddNewTask "string list"
  | TaskAdded string
  | RequestInteraction InteractionMessageType AdditionalMessage
  | ConnectReplyReceived
  | DisconnectReplyReceived
  | LayerFileNew int
  | Unpack
  | Umount string
  | MountUab
  | ExtractSignData
  | Log severity

text \<open>
  The collaborators. \<open>'s\<close> is the state of everything outside the engine: the layer
  store, the remote, the file system, the processes. A query reads it, a mutating call
  returns the new one. A \<^verbatim>\<open>Result\<close> that holds an error is \<open>None\<close> (or \<open>False\<close> for
  \<^verbatim>\<open>Result<void>\<close>); the error's text is not modelled. \<^verbatim>\<open>pull\<close> takes the task by
  reference and reports into it, so it returns the task as well.
\<close>

record 's env =
  x_toString :: "reference \<Rightarrow> string"
  x_parse :: "string \<Rightarrow> reference option"
  x_fromPackageInfo :: "PackageInfoV2 \<Rightarrow> reference option"
  x_fuzzyParse :: "string \<Rightarrow> fuzzy_reference option"
  x_fuzzyCreate :: "string option \<Rightarrow> string \<Rightarrow> version option \<Rightarrow> string option \<Rightarrow> fuzzy_reference option"
  x_fuzzyToString :: "fuzzy_reference \<Rightarrow> string"
  x_versionParse :: "string \<Rightarrow> version option"
  x_versionToString :: "version \<Rightarrow> string"
  x_architectureParse :: "string \<Rightarrow> string option"
  x_currentCPUArchitecture :: "string option"
  x_createTemporaryTask :: PackageTask
  x_open :: "'s \<Rightarrow> int"
  x_fcntl_lock :: "'s \<Rightarrow> int \<Rightarrow> bool"
  x_fcntl_unlock :: "'s \<Rightarrow> int \<Rightarrow> bool"
  x_getAllRunningContainers :: "'s \<Rightarrow> ContainerProcessStateInfo list option"
  x_listLocalBy :: "'s \<Rightarrow> repoCacheQuery \<Rightarrow> RepositoryCacheLayersItem list option"
  x_listLocal :: "'s \<Rightarrow> PackageInfoV2 list option"
  x_clearReference :: "'s \<Rightarrow> fuzzy_reference \<Rightarrow> clearReferenceOption \<Rightarrow> string option \<Rightarrow> reference option"
  x_getModuleList :: "'s \<Rightarrow> reference \<Rightarrow> string list"
  x_getRemoteModuleList :: "'s \<Rightarrow> reference \<Rightarrow> string list \<Rightarrow> string list option"
  x_getLayerItem :: "'s \<Rightarrow> reference \<Rightarrow> RepositoryCacheLayersItem option"
  x_getLayerDir :: "'s \<Rightarrow> reference \<Rightarrow> string option \<Rightarrow> string option \<Rightarrow> LayerDir option"
  x_defaultRepo :: "'s \<Rightarrow> string"
  x_markDeleted :: "'s \<Rightarrow> reference \<Rightarrow> bool \<Rightarrow> string \<Rightarrow> bool \<times> 's"
  x_unexportReference :: "'s \<Rightarrow> reference \<Rightarrow> 's"
  x_exportReference :: "'s \<Rightarrow> reference \<Rightarrow> 's"
  x_remove :: "'s \<Rightarrow> reference \<Rightarrow> string \<Rightarrow> string option \<Rightarrow> bool \<times> 's"
  x_mergeModules :: "'s \<Rightarrow> bool \<times> 's"
  x_pull :: "'s \<Rightarrow> PackageTask \<Rightarrow> reference \<Rightarrow> string \<Rightarrow> PackageTask \<times> 's"
  x_importLayerDir :: "'s \<Rightarrow> LayerDir \<Rightarrow> string list \<Rightarrow> string option \<Rightarrow> bool \<times> 's"
  x_prune :: "'s \<Rightarrow> bool \<times> 's"
  x_remove_all :: "'s \<Rightarrow> string \<Rightarrow> bool \<times> 's"
  x_runCacheGenerator :: "'s \<Rightarrow> reference \<Rightarrow> bool \<times> 's"
  x_addNewTask :: "'s \<Rightarrow> string list \<Rightarrow> (string \<times> PackageTask) option \<times> 's"
  x_parsePackageInfo :: "string \<Rightarrow> PackageInfoV2 option"
  x_layerFileNew :: "'s \<Rightarrow> int \<Rightarrow> LayerFile option"
  x_unpack :: "'s \<Rightarrow> LayerFile \<Rightarrow> LayerDir option \<times> 's"
  x_umount :: "'s \<Rightarrow> string \<Rightarrow> bool \<times> 's"
  x_mountUab :: "'s \<Rightarrow> string option \<times> 's"
  x_isDir :: "'s \<Rightarrow> string \<Rightarrow> bool"
  x_exists :: "'s \<Rightarrow> string \<Rightarrow> bool"
  x_layerDirInfo :: "'s \<Rightarrow> string \<Rightarrow> PackageInfoV2 option"
  x_extractSignData :: "'s \<Rightarrow> string option \<times> 's"

text \<open>The engine's own state: the world, the calls made so far, and \<^verbatim>\<open>lockFd\<close>.\<close>

record 's pm =
  world :: 's
  trace :: "event list"
  lockFd :: int

definition emit :: "event \<Rightarrow> 's pm \<Rightarrow> 's pm" where
  "emit e p = p\<lparr>trace := trace p @ [e]\<rparr>"

definition query :: "('s \<Rightarrow> 'a) \<Rightarrow> event \<Rightarrow> 's pm \<Rightarrow> 'a \<times> 's pm" where
  "query f e p = (f (world p), emit e p)"

definition mutate :: "('s \<Rightarrow> 'a \<times> 's) \<Rightarrow> event \<Rightarrow> 's pm \<Rightarrow> 'a \<times> 's pm" where
  "mutate f e p = (fst (f (world p)), emit e (p\<lparr>world := snd (f (world p))\<rparr>))"

text \<open>A call whose failure is only logged (\<^verbatim>\<open>qCritical\<close> or \<^verbatim>\<open>qWarning\<close>).\<close>

definition logged :: "severity \<Rightarrow> bool \<times> 's pm \<Rightarrow> 's pm" where
  "logged sev r = (if fst r then snd r else emit (Log sev) (snd r))"

text \<open>
  How a call of the engine ends: it returns, it runs into undefined behaviour of C++
  (reading the value of a \<^verbatim>\<open>Result\<close> that holds an error, or the first element of an
  empty vector), or it waits for an interaction reply that never comes. The second and
  third carry the engine's state at that point.
\<close>

datatype ('a, 's) outcome = Returns 'a "'s pm" | Undefined "'s pm" | Blocked "'s pm"

subsection \<open>Calls on the layer store\<close>

definition repo_listLocalBy :: "'s env \<Rightarrow> repoCacheQuery \<Rightarrow> 's pm \<Rightarrow> RepositoryCacheLayersItem list option \<times> 's pm" where
  "repo_listLocalBy env q = query (\<lambda>w. x_listLocalBy env w q) (ListLocalBy q)"

definition repo_listLocal :: "'s env \<Rightarrow> 's pm \<Rightarrow> PackageInfoV2 list option \<times> 's pm" where
  "repo_listLocal env = query (x_listLocal env) ListLocal"

definition repo_clearReference :: "'s env \<Rightarrow> fuzzy_reference \<Rightarrow> clearReferenceOption \<Rightarrow> string option \<Rightarrow> 's pm \<Rightarrow> reference option \<times> 's pm" where
  "repo_clearReference env fuzzy opts module p =
     query (\<lambda>w. x_clearReference env w fuzzy opts module)
       (ClearReference fuzzy opts module (x_clearReference env (world p) fuzzy opts module)) p"

definition repo_getModuleList :: "'s env \<Rightarrow> reference \<Rightarrow> 's pm \<Rightarrow> string list \<times> 's pm" where
  "repo_getModuleList env ref p =
     query (\<lambda>w. x_getModuleList env w ref) (GetModuleList ref (x_getModuleList env (world p) ref)) p"

definition repo_getRemoteModuleList :: "'s env \<Rightarrow> reference \<Rightarrow> string list \<Rightarrow> 's pm \<Rightarrow> string list option \<times> 's pm" where
  "repo_getRemoteModuleList env ref modules =
     query (\<lambda>w. x_getRemoteModuleList env w ref modules) (GetRemoteModuleList ref modules)"

definition repo_getLayerItem :: "'s env \<Rightarrow> reference \<Rightarrow> 's pm \<Rightarrow> RepositoryCacheLayersItem option \<times> 's pm" where
  "repo_getLayerItem env ref = query (\<lambda>w. x_getLayerItem env w ref) (GetLayerItem ref)"

definition repo_getLayerDir :: "'s env \<Rightarrow> reference \<Rightarrow> string option \<Rightarrow> string option \<Rightarrow> 's pm \<Rightarrow> LayerDir option \<times> 's pm" where
  "repo_getLayerDir env ref module subRef =
     query (\<lambda>w. x_getLayerDir env w ref module subRef) (GetLayerDir ref module subRef)"

definition repo_markDeleted :: "'s env \<Rightarrow> reference \<Rightarrow> bool \<Rightarrow> string \<Rightarrow> 's pm \<Rightarrow> bool \<times> 's pm" where
  "repo_markDeleted env ref deleted module =
     mutate (\<lambda>w. x_markDeleted env w ref deleted module) (MarkDeleted ref deleted module)"

definition repo_unexportReference :: "'s env \<Rightarrow> reference \<Rightarrow> 's pm \<Rightarrow> 's pm" where
  "repo_unexportReference env ref p =
     emit (UnexportReference ref) (p\<lparr>world := x_unexportReference env (world p) ref\<rparr>)"

definition repo_exportReference :: "'s env \<Rightarrow> reference \<Rightarrow> 's pm \<Rightarrow> 's pm" where
  "repo_exportReference env ref p =
     emit (ExportReference ref) (p\<lparr>world := x_exportReference env (world p) ref\<rparr>)"

definition repo_remove :: "'s env \<Rightarrow> reference \<Rightarrow> string \<Rightarrow> string option \<Rightarrow> 's pm \<Rightarrow> bool \<times> 's pm" where
  "repo_remove env ref module subRef =
     mutate (\<lambda>w. x_remove env w ref module subRef) (Remove ref module subRef)"

definition repo_mergeModules :: "'s env \<Rightarrow> 's pm \<Rightarrow> bool \<times> 's pm" where
  "repo_mergeModules env = mutate (x_mergeModules env) MergeModules"

definition repo_pull :: "'s env \<Rightarrow> PackageTask \<Rightarrow> reference \<Rightarrow> string \<Rightarrow> 's pm \<Rightarrow> PackageTask \<times> 's pm" where
  "repo_pull env t ref module = mutate (\<lambda>w. x_pull env w t ref module) (Pull ref module)"

definition repo_importLayerDir :: "'s env \<Rightarrow> LayerDir \<Rightarrow> string list \<Rightarrow> string option \<Rightarrow> 's pm \<Rightarrow> bool \<times> 's pm" where
  "repo_importLayerDir env dir overlays subRef =
     mutate (\<lambda>w. x_importLayerDir env w dir overlays subRef) (ImportLayerDir (dir_path dir) overlays subRef)"

definition repo_prune :: "'s env \<Rightarrow> 's pm \<Rightarrow> bool \<times> 's pm" where
  "repo_prune env = mutate (x_prune env) PruneRepo"

text \<open>The two spellings of the main module of a package.\<close>

definition binary_or_runtime :: "string \<Rightarrow> bool" where
  "binary_or_runtime module = (module = ''binary'' \<or> module = ''runtime'')"

subsection \<open>The repository lock and the live-container inventory\<close>

text \<open>\<^verbatim>\<open>lockRepo\<close>, lines 230 to 250, and \<^verbatim>\<open>unlockRepo\<close>, lines 252 to 274.\<close>

definition lockRepo :: "'s env \<Rightarrow> 's pm \<Rightarrow> bool \<times> 's pm" where
  "lockRepo env p =
    (let fd = x_open env (world p);
         p1 = p\<lparr>lockFd := fd\<rparr>
     in if fd = - 1 then (False, emit (LockRepo False) p1)
        else if \<not> x_fcntl_lock env (world p) fd then (False, emit (LockRepo False) p1)
        else (True, emit (LockRepo True) p1))"

definition unlockRepo :: "'s env \<Rightarrow> 's pm \<Rightarrow> bool \<times> 's pm" where
  "unlockRepo env p =
    (if lockFd p = - 1 then (True, p)
     else if \<not> x_fcntl_unlock env (world p) (lockFd p) then (False, emit (UnlockRepo False) p)
     else (True, emit (UnlockRepo True) (p\<lparr>lockFd := - 1\<rparr>)))"

text \<open>
  The \<^verbatim>\<open>finally\<close> block of \<^verbatim>\<open>isRefBusy\<close> and \<^verbatim>\<open>deferredUninstall\<close>: unlock, and log a
  failure.
\<close>

definition unlock_finally :: "'s env \<Rightarrow> 's pm \<Rightarrow> 's pm" where
  "unlock_finally env p = logged Critical (unlockRepo env p)"

text \<open>
  \<^verbatim>\<open>getAllRunningContainers\<close>, lines 173 to 228, walks \<^verbatim>\<open>/run/linglong\<close>; what it finds is
  the collaborator's answer \<open>x_getAllRunningContainers\<close>.
\<close>

definition getAllRunningContainers :: "'s env \<Rightarrow> 's pm \<Rightarrow> ContainerProcessStateInfo list option \<times> 's pm" where
  "getAllRunningContainers env = query (x_getAllRunningContainers env) GetAllRunningContainers"

text \<open>\<^verbatim>\<open>isRefBusy\<close>, lines 140 to 171. \<open>None\<close> is the error result.\<close>

definition isRefBusy :: "'s env \<Rightarrow> reference \<Rightarrow> 's pm \<Rightarrow> bool option \<times> 's pm" where
  "isRefBusy env ref p =
    (case lockRepo env p of
       (False, p1) \<Rightarrow> (None, p1)
     | (True, p1) \<Rightarrow>
         (case getAllRunningContainers env p1 of
            (None, p2) \<Rightarrow> (None, unlock_finally env p2)
          | (Some running, p2) \<Rightarrow>
              (Some (list_ex (\<lambda>info. app info = x_toString env ref) running),
               unlock_finally env p2)))"

subsection \<open>Derived caches and rollback journals\<close>

text \<open>
  \<^verbatim>\<open>removeCache\<close>, lines 2263 to 2280: the cache directory is named by the commit of the
  reference's layer item.
\<close>

definition removeCache :: "'s env \<Rightarrow> reference \<Rightarrow> 's pm \<Rightarrow> bool \<times> 's pm" where
  "removeCache env ref p =
    (case repo_getLayerItem env ref (emit (RemoveCache ref) p) of
       (None, p1) \<Rightarrow> (False, p1)
     | (Some layerItem, p1) \<Rightarrow>
         mutate (\<lambda>w. x_remove_all env w (commit layerItem)) (RemoveAll (commit layerItem)) p1)"

text \<open>
  \<^verbatim>\<open>generateCache\<close>, lines 2136 to 2261, builds and runs the cache-generator container;
  the run is the collaborator's \<open>x_runCacheGenerator\<close>.
\<close>

definition generateCache :: "'s env \<Rightarrow> reference \<Rightarrow> 's pm \<Rightarrow> bool \<times> 's pm" where
  "generateCache env ref = mutate (\<lambda>w. x_runCacheGenerator env w ref) (GenerateCache ref)"

text \<open>
  Modelled from the spec: \<^verbatim>\<open>utils::Transaction\<close> (\<^verbatim>\<open>transaction.h\<close>) is not part of the
  sources. It is the spec's rollback journal: inverses are registered with
  \<^verbatim>\<open>addRollBack\<close>, and when the transaction goes out of scope without \<^verbatim>\<open>commit\<close> they are
  played in reverse. A journal is the list of registered inverses, oldest first.

  The inverse of a removal pulls the module again with a temporary task and regenerates
  the cache of a main module (lines 329 to 342 and 1550 to 1563).
\<close>

definition rollback_pull :: "'s env \<Rightarrow> severity \<Rightarrow> reference \<Rightarrow> string \<Rightarrow> 's pm \<Rightarrow> 's pm" where
  "rollback_pull env sev ref module p =
    (case repo_pull env (x_createTemporaryTask env) ref module p of
       (tmp, p1) \<Rightarrow>
         (let p2 = (if state tmp \<noteq> Succeed then emit (Log sev) p1 else p1)
          in if binary_or_runtime module then logged Critical (generateCache env ref p2) else p2))"

text \<open>\<^verbatim>\<open>UninstallRef\<close>, lines 1524 to 1567. The loop returns whether it reached the commit.\<close>

fun UninstallRef_loop :: "'s env \<Rightarrow> reference \<Rightarrow> string list \<Rightarrow> string list \<Rightarrow> PackageTask \<Rightarrow> 's pm \<Rightarrow> bool \<times> string list \<times> PackageTask \<times> 's pm" where
  "UninstallRef_loop env ref [] journal t p = (True, journal, t, p)"
| "UninstallRef_loop env ref (module # modules) journal t p =
    (let p1 = (if binary_or_runtime module then logged Critical (removeCache env ref p) else p)
     in case repo_remove env ref module None p1 of
          (False, p2) \<Rightarrow> (False, journal, updateState Failed t, p2)
        | (True, p2) \<Rightarrow> UninstallRef_loop env ref modules (journal @ [module]) t p2)"

definition UninstallRef :: "'s env \<Rightarrow> PackageTask \<Rightarrow> reference \<Rightarrow> string list \<Rightarrow> 's pm \<Rightarrow> PackageTask \<times> 's pm" where
  "UninstallRef env taskContext ref modules p =
    (if isTaskDone (subState taskContext) then (taskContext, p)
     else case UninstallRef_loop env ref modules [] (updateSubState UninstallSub taskContext) p of
            (True, journal, t, p1) \<Rightarrow> (t, p1)
          | (False, journal, t, p1) \<Rightarrow>
              (t, foldl (\<lambda>q module. rollback_pull env Critical ref module q) p1 (rev journal)))"

text \<open>The inverses the other functions register.\<close>

datatype rollback =
    RollbackMarkDeleted reference bool string
  | RollbackExport reference
  | RollbackPull reference string
  | RollbackRemove reference string "string option"
  | RollbackUninstallRef reference "string list"

fun run_rollback :: "'s env \<Rightarrow> rollback \<Rightarrow> 's pm \<Rightarrow> 's pm" where
  "run_rollback env (RollbackMarkDeleted ref deleted module) p =
     logged Warning (repo_markDeleted env ref deleted module p)"
| "run_rollback env (RollbackExport ref) p = repo_exportReference env ref p"
| "run_rollback env (RollbackPull ref module) p = rollback_pull env Warning ref module p"
| "run_rollback env (RollbackRemove ref module subRef) p =
     logged Critical (repo_remove env ref module subRef p)"
| "run_rollback env (RollbackUninstallRef ref modules) p =
     (case UninstallRef env (x_createTemporaryTask env) ref modules p of
        (tmp, p1) \<Rightarrow> if state tmp \<noteq> Succeed then emit (Log Critical) p1 else p1)"

definition rollBack :: "'s env \<Rightarrow> rollback list \<Rightarrow> 's pm \<Rightarrow> 's pm" where
  "rollBack env journal p = foldl (\<lambda>q inverse. run_rollback env inverse q) p (rev journal)"

subsection \<open>\<^verbatim>\<open>removeAfterInstall\<close>, lines 276 to 354\<close>

text \<open>The loop of the busy branch, lines 290 to 305.\<close>

fun markDeleted_loop :: "'s env \<Rightarrow> reference \<Rightarrow> string list \<Rightarrow> rollback list \<Rightarrow> 's pm \<Rightarrow> bool \<times> rollback list \<times> 's pm" where
  "markDeleted_loop env oldRef [] journal p = (True, journal, p)"
| "markDeleted_loop env oldRef (module # modules) journal p =
    (case repo_markDeleted env oldRef True module p of
       (False, p1) \<Rightarrow> (False, journal, p1)
     | (True, p1) \<Rightarrow>
         markDeleted_loop env oldRef modules (journal @ [RollbackMarkDeleted oldRef False module]) p1)"

text \<open>The loop of the other branch, lines 316 to 343.\<close>

fun remove_loop :: "'s env \<Rightarrow> reference \<Rightarrow> string list \<Rightarrow> rollback list \<Rightarrow> 's pm \<Rightarrow> bool \<times> rollback list \<times> 's pm" where
  "remove_loop env oldRef [] journal p = (True, journal, p)"
| "remove_loop env oldRef (module # modules) journal p =
    (let p1 = (if module = ''binary'' \<or> module = ''runtime''
               then logged Critical (removeCache env oldRef p) else p)
     in case repo_remove env oldRef module None p1 of
          (False, p2) \<Rightarrow> (False, journal, p2)
        | (True, p2) \<Rightarrow> remove_loop env oldRef modules (journal @ [RollbackPull oldRef module]) p2)"

text \<open>The result is \<open>True\<close> for \<^verbatim>\<open>LINGLONG_OK\<close> and \<open>False\<close> for an error.\<close>

definition removeAfterInstall :: "'s env \<Rightarrow> reference \<Rightarrow> reference \<Rightarrow> string list \<Rightarrow> 's pm \<Rightarrow> bool \<times> 's pm" where
  "removeAfterInstall env oldRef newRef modules p =
    (case isRefBusy env oldRef p of
       (None, p1) \<Rightarrow> (False, p1)
     | (Some True, p1) \<Rightarrow>
         (case markDeleted_loop env oldRef modules [] p1 of
            (False, journal, p2) \<Rightarrow> (False, rollBack env journal p2)
          | (True, journal, p2) \<Rightarrow> (True, p2))
     | (Some False, p1) \<Rightarrow>
         (case remove_loop env oldRef modules [RollbackExport oldRef]
                 (repo_unexportReference env oldRef p1) of
            (False, journal, p2) \<Rightarrow> (False, rollBack env journal p2)
          | (True, journal, p2) \<Rightarrow>
              (True, repo_exportReference env newRef (logged Critical (repo_mergeModules env p2)))))"

subsection \<open>\<^verbatim>\<open>deferredUninstall\<close>, lines 356 to 460\<close>

text \<open>
  \<open>uninstalledLayers\<close> is a \<^verbatim>\<open>std::unordered_map\<close> from the reference's string to its
  deleted items. The model keeps the groups in the order their keys were first inserted;
  the order in which C++ visits them is unspecified.
\<close>

type_synonym uninstalledLayers = "(string \<times> RepositoryCacheLayersItem list) list"

fun try_emplace_push_back :: "string \<Rightarrow> RepositoryCacheLayersItem \<Rightarrow> uninstalledLayers \<Rightarrow> uninstalledLayers" where
  "try_emplace_push_back key item [] = [(key, [item])]"
| "try_emplace_push_back key item ((k, items) # rest) =
    (if k = key then (k, items @ [item]) # rest
     else (k, items) # try_emplace_push_back key item rest)"

text \<open>Lines 378 to 390; \<open>None\<close> when an item has no valid reference (the tick returns).\<close>

fun group_uninstalled :: "'s env \<Rightarrow> RepositoryCacheLayersItem list \<Rightarrow> uninstalledLayers \<Rightarrow> uninstalledLayers option" where
  "group_uninstalled env [] groups = Some groups"
| "group_uninstalled env (item # items) groups =
    (case x_fromPackageInfo env (item_info item) of
       None \<Rightarrow> None
     | Some ref \<Rightarrow> group_uninstalled env items (try_emplace_push_back (x_toString env ref) item groups))"

text \<open>Lines 403 to 407: the groups of running applications are erased.\<close>

definition erase_key :: "string \<Rightarrow> uninstalledLayers \<Rightarrow> uninstalledLayers" where
  "erase_key key groups = filter (\<lambda>g. fst g \<noteq> key) groups"

definition erase_running :: "ContainerProcessStateInfo list \<Rightarrow> uninstalledLayers \<Rightarrow> uninstalledLayers" where
  "erase_running running groups = foldl (\<lambda>g container. erase_key (app container) g) groups running"

text \<open>Lines 423 to 436: the items of one group.\<close>

fun uninstall_items :: "'s env \<Rightarrow> reference \<Rightarrow> RepositoryCacheLayersItem list \<Rightarrow> 's pm \<Rightarrow> 's pm" where
  "uninstall_items env pkgRef [] p = p"
| "uninstall_items env pkgRef (item # items) p =
    (let module = packageInfoV2Module (item_info item);
         p1 = (if module = ''binary'' \<or> module = ''runtime''
               then logged Critical (removeCache env pkgRef p) else p);
         p2 = logged Critical (repo_remove env pkgRef module (info_uuid (item_info item)) p1)
     in uninstall_items env pkgRef items p2)"

text \<open>
  Lines 414 to 459: the loop over the surviving groups. When the lookup of the latest
  reference fails, the failure is logged and the failed result is dereferenced all the
  same (line 458): undefined behaviour. \<^verbatim>\<open>Q_ASSERT\<close> is the release build's (no effect).
\<close>

fun uninstall_groups :: "'s env \<Rightarrow> uninstalledLayers \<Rightarrow> 's pm \<Rightarrow> (unit, 's) outcome" where
  "uninstall_groups env [] p = Returns () p"
| "uninstall_groups env ((ref, items) # rest) p =
    (case x_parse env ref of
       None \<Rightarrow> Returns () (emit (Log Critical) p)
     | Some pkgRef \<Rightarrow>
         (let p1 = repo_unexportReference env pkgRef p;
              p2 = uninstall_items env pkgRef items p1;
              p3 = logged Critical (repo_mergeModules env p2)
          in case x_fuzzyCreate env (Some (channel pkgRef)) (id_ref pkgRef) None (Some (arch pkgRef)) of
               None \<Rightarrow> Returns () (emit (Log Critical) p3)
             | Some fuzzy \<Rightarrow>
                 (case repo_clearReference env fuzzy
                         \<lparr>forceRemote = None, fallbackToRemote = Some False\<rparr> None p3 of
                    (None, p4) \<Rightarrow> Undefined (emit (Log Critical) p4)
                  | (Some latestRef, p4) \<Rightarrow>
                      uninstall_groups env rest (repo_exportReference env latestRef p4))))"

text \<open>The body between taking the lock and the \<^verbatim>\<open>finally\<close> block, lines 369 to 459.\<close>

definition deferredUninstall_locked :: "'s env \<Rightarrow> 's pm \<Rightarrow> (unit, 's) outcome" where
  "deferredUninstall_locked env p =
    (case repo_listLocalBy env
            \<lparr>query_id = None, query_channel = None, query_version = None, query_deleted = Some True\<rparr> p of
       (None, p1) \<Rightarrow> Returns () (emit (Log Critical) p1)
     | (Some uninstalled, p1) \<Rightarrow>
         (case group_uninstalled env uninstalled [] of
            None \<Rightarrow> Returns () (emit (Log Critical) p1)
          | Some uninstalledLayers \<Rightarrow>
              if uninstalledLayers = [] then Returns () p1
              else (case getAllRunningContainers env p1 of
                      (None, p2) \<Rightarrow> Returns () (emit (Log Critical) p2)
                    | (Some running, p2) \<Rightarrow>
                        (let survivors = erase_running running uninstalledLayers
                         in if survivors = [] then Returns () p2
                            else uninstall_groups env survivors p2))))"

definition deferredUninstall :: "'s env \<Rightarrow> 's pm \<Rightarrow> (unit, 's) outcome" where
  "deferredUninstall env p =
    (case lockRepo env p of
       (False, p1) \<Rightarrow> Returns () (emit (Log Critical) p1)
     | (True, p1) \<Rightarrow>
         (case deferredUninstall_locked env p1 of
            Returns u p2 \<Rightarrow> Returns () (unlock_finally env p2)
          | Undefined p2 \<Rightarrow> Undefined p2
          | Blocked p2 \<Rightarrow> Blocked p2))"

subsection \<open>\<^verbatim>\<open>pullDependency\<close>, lines 1823 to 1915\<close>

text \<open>The second half, lines 1882 to 1914; \<open>journal\<close> is the function's transaction.\<close>

definition pullDependency_base :: "'s env \<Rightarrow> PackageTask \<Rightarrow> PackageInfoV2 \<Rightarrow> string \<Rightarrow> rollback list \<Rightarrow> 's pm \<Rightarrow> PackageTask \<times> 's pm" where
  "pullDependency_base env taskContext info module journal p =
    (case x_fuzzyParse env (info_base info) of
       None \<Rightarrow> (updateState Failed taskContext, rollBack env journal p)
     | Some fuzzyBase \<Rightarrow>
         (case repo_clearReference env fuzzyBase
                 \<lparr>forceRemote = Some False, fallbackToRemote = Some True\<rparr> None p of
            (None, p1) \<Rightarrow> (updateState Failed taskContext, rollBack env journal p1)
          | (Some base, p1) \<Rightarrow>
              (let t1 = updateSubState InstallBase taskContext
               in case repo_getLayerDir env base (Some module) None p1 of
                    (Some baseLayerDir, p2) \<Rightarrow> (t1, p2)
                  | (None, p2) \<Rightarrow>
                      if isTaskDone (subState t1) then (t1, rollBack env journal p2)
                      else (case repo_pull env t1 base module p2 of
                              (t2, p3) \<Rightarrow>
                                if isTaskDone (subState t2) then (t2, rollBack env journal p3)
                                else (t2, p3)))))"

definition pullDependency :: "'s env \<Rightarrow> PackageTask \<Rightarrow> PackageInfoV2 \<Rightarrow> string \<Rightarrow> 's pm \<Rightarrow> PackageTask \<times> 's pm" where
  "pullDependency env taskContext info module p =
    (if info_kind info \<noteq> ''app'' then (taskContext, p)
     else if module \<noteq> ''binary'' \<and> module \<noteq> ''runtime'' then (taskContext, p)
     else (case info_runtime info of
             None \<Rightarrow> pullDependency_base env taskContext info module [] p
           | Some runtimeString \<Rightarrow>
               (case x_fuzzyParse env runtimeString of
                  None \<Rightarrow> (updateState Failed taskContext, p)
                | Some fuzzyRuntime \<Rightarrow>
                    (case repo_clearReference env fuzzyRuntime
                            \<lparr>forceRemote = Some False, fallbackToRemote = Some True\<rparr> None p of
                       (None, p1) \<Rightarrow> (updateState Failed taskContext, p1)
                     | (Some runtime, p1) \<Rightarrow>
                         (let t1 = updateSubState InstallRuntime taskContext
                          in case repo_getLayerDir env runtime None None p1 of
                               (Some runtimeLayerDir, p2) \<Rightarrow>
                                 pullDependency_base env t1 info module [] p2
                             | (None, p2) \<Rightarrow>
                                 if isTaskDone (subState t1) then (t1, p2)
                                 else (case repo_pull env t1 runtime module p2 of
                                         (t2, p3) \<Rightarrow>
                                           if isTaskDone (subState t2) then (t2, p3)
                                           else pullDependency_base env t2 info module
                                                  [RollbackRemove runtime module None] p3))))))"

subsection \<open>\<^verbatim>\<open>InstallRef\<close>, lines 1336 to 1453\<close>

text \<open>The predicate of \<^verbatim>\<open>std::find_if\<close>, lines 1378 to 1388.\<close>

definition module_matches :: "string \<Rightarrow> string \<Rightarrow> bool" where
  "module_matches deletedModule module =
    ((module = ''runtime'' \<and> deletedModule = ''binary'')
     \<or> (module = ''binary'' \<and> deletedModule = ''runtime'')
     \<or> module = deletedModule)"

text \<open>\<^verbatim>\<open>modules.erase(it)\<close> for the iterator \<^verbatim>\<open>find_if\<close> returned: the first match goes.\<close>

fun erase_first :: "('a \<Rightarrow> bool) \<Rightarrow> 'a list \<Rightarrow> 'a list" where
  "erase_first P [] = []"
| "erase_first P (x # xs) = (if P x then xs else x # erase_first P xs)"

text \<open>
  The loop over the deleted items, lines 1372 to 1410. The first component of the result
  says whether the loop left the function (\<^verbatim>\<open>return\<close>); then come the modules still to
  pull, the journal, the task and the state.
\<close>

fun reconcile_deleted :: "'s env \<Rightarrow> reference \<Rightarrow> RepositoryCacheLayersItem list \<Rightarrow> string list \<Rightarrow> rollback list \<Rightarrow> PackageTask \<Rightarrow> 's pm \<Rightarrow> bool \<times> string list \<times> rollback list \<times> PackageTask \<times> 's pm" where
  "reconcile_deleted env ref [] modules journal t p = (False, modules, journal, t, p)"
| "reconcile_deleted env ref (deletedItem # rest) modules journal t p =
    (if isTaskDone (subState t) then (True, modules, journal, t, p)
     else if \<not> list_ex (module_matches (packageInfoV2Module (item_info deletedItem))) modules
     then reconcile_deleted env ref rest modules journal t p
     else (case repo_markDeleted env ref False (packageInfoV2Module (item_info deletedItem)) p of
             (ok, p1) \<Rightarrow>
               reconcile_deleted env ref rest
                 (erase_first (module_matches (packageInfoV2Module (item_info deletedItem))) modules)
                 (journal @ [RollbackMarkDeleted ref True (packageInfoV2Module (item_info deletedItem))])
                 (if ok then t else updateState Failed t)
                 (if ok then p1 else emit (Log Critical) p1)))"

text \<open>
  The loop over the modules left, lines 1412 to 1450. The first component says whether
  the loop ran to its end (and the transaction is committed).
\<close>

fun pull_modules :: "'s env \<Rightarrow> reference \<Rightarrow> string list \<Rightarrow> rollback list \<Rightarrow> PackageTask \<Rightarrow> 's pm \<Rightarrow> bool \<times> rollback list \<times> PackageTask \<times> 's pm" where
  "pull_modules env ref [] journal t p = (True, journal, t, p)"
| "pull_modules env ref (module # rest) journal t p =
    (if isTaskDone (subState t) then (False, journal, t, p)
     else (case repo_pull env t ref module p of
             (t1, p1) \<Rightarrow>
               if isTaskDone (subState t1) then (False, journal, t1, p1)
               else if module \<noteq> ''binary'' \<and> module \<noteq> ''runtime''
               then pull_modules env ref rest (journal @ [RollbackRemove ref module None]) t1 p1
               else (case repo_getLayerDir env ref None None p1 of
                       (None, p2) \<Rightarrow>
                         (False, journal @ [RollbackRemove ref module None], updateState Failed t1, p2)
                     | (Some layerDir, p2) \<Rightarrow>
                         (case dir_info layerDir of
                            None \<Rightarrow>
                              (False, journal @ [RollbackRemove ref module None],
                               updateState Failed t1, p2)
                          | Some info \<Rightarrow>
                              (case pullDependency env t1 info ''binary'' p2 of
                                 (t2, p3) \<Rightarrow>
                                   pull_modules env ref rest
                                     (journal @ [RollbackRemove ref module None]) t2 p3)))))"

text \<open>
  When the host architecture is unknown the task is set to \<open>Failed\<close> and the failed result
  is dereferenced on the next line (line 1350): undefined behaviour.
\<close>

definition InstallRef :: "'s env \<Rightarrow> PackageTask \<Rightarrow> reference \<Rightarrow> string list \<Rightarrow> 's pm \<Rightarrow> (PackageTask, 's) outcome" where
  "InstallRef env taskContext ref modules p =
    (case x_currentCPUArchitecture env of
       None \<Rightarrow> Undefined p
     | Some currentArch \<Rightarrow>
         (let t1 = updateSubState PreAction taskContext;
              t2 = (if arch ref \<noteq> currentArch then updateState Failed t1 else t1);
              t3 = updateSubState InstallApplication t2
          in case repo_listLocalBy env
                    \<lparr>query_id = Some (id_ref ref), query_channel = Some (channel ref),
                     query_version = Some (x_versionToString env (version ref)),
                     query_deleted = Some True\<rparr> p of
               (None, p1) \<Rightarrow> Returns (updateState Failed t3) p1
             | (Some deletedList, p1) \<Rightarrow>
                 (case reconcile_deleted env ref deletedList modules [] t3 p1 of
                    (True, pending, journal, t4, p2) \<Rightarrow> Returns t4 (rollBack env journal p2)
                  | (False, pending, journal, t4, p2) \<Rightarrow>
                      (case pull_modules env ref pending journal t4 p2 of
                         (True, journal', t5, p3) \<Rightarrow> Returns t5 p3
                       | (False, journal', t5, p3) \<Rightarrow> Returns t5 (rollBack env journal' p3)))))"

subsection \<open>The install plan \<^verbatim>\<open>Install(task, newRef, oldRef, modules)\<close>, lines 1261 to 1334\<close>

definition Install_task :: "'s env \<Rightarrow> PackageTask \<Rightarrow> reference \<Rightarrow> reference option \<Rightarrow> string list \<Rightarrow> 's pm \<Rightarrow> (PackageTask, 's) outcome" where
  "Install_task env taskContext newRef oldRef modules p =
    (let t1 = updateState Processing taskContext
     in case repo_getRemoteModuleList env newRef modules p of
          (None, p1) \<Rightarrow> Returns (reportError t1) p1
        | (Some installModules, p1) \<Rightarrow>
            if installModules = [] then Returns (updateState Failed t1) p1
            else (case InstallRef env t1 newRef installModules p1 of
                    Undefined p2 \<Rightarrow> Undefined p2
                  | Blocked p2 \<Rightarrow> Blocked p2
                  | Returns t2 p2 \<Rightarrow>
                      if isTaskDone (subState t2)
                      then Returns t2 (rollBack env [RollbackUninstallRef newRef installModules] p2)
                      else (let t3 = updateSubState PostAction t2;
                                p3 = logged Critical (repo_mergeModules env p2)
                            in case repo_getLayerItem env newRef p3 of
                                 (None, p4) \<Rightarrow>
                                   Returns (reportError t3)
                                     (rollBack env [RollbackUninstallRef newRef installModules] p4)
                               | (Some layer, p4) \<Rightarrow>
                                   if info_kind (item_info layer) \<noteq> ''app''
                                   then Returns (updateState Succeed t3) p4
                                   else (case (case oldRef of
                                                 Some old \<Rightarrow> removeAfterInstall env old newRef modules p4
                                               | None \<Rightarrow> (True, repo_exportReference env newRef p4)) of
                                           (False, p5) \<Rightarrow>
                                             Returns (updateState Failed t3)
                                               (rollBack env [RollbackUninstallRef newRef installModules] p5)
                                         | (True, p5) \<Rightarrow>
                                             (case generateCache env newRef p5 of
                                                (False, p6) \<Rightarrow>
                                                  Returns (updateState Failed t3)
                                                    (rollBack env [RollbackUninstallRef newRef installModules] p6)
                                              | (True, p6) \<Rightarrow> Returns (updateState Succeed t3) p6)))))"

subsection \<open>The uninstall plan \<^verbatim>\<open>Uninstall(task, ref, module)\<close>, lines 1569 to 1608\<close>

definition Uninstall_task :: "'s env \<Rightarrow> PackageTask \<Rightarrow> reference \<Rightarrow> string \<Rightarrow> 's pm \<Rightarrow> PackageTask \<times> 's pm" where
  "Uninstall_task env taskContext ref module p =
    (if isTaskDone (subState taskContext) then (taskContext, p)
     else (let t1 = updateSubState PreAction (updateState Processing taskContext)
           in case (if module = ''binary'' \<or> module = ''runtime''
                    then (case repo_getModuleList env ref p of
                            (modules, p1) \<Rightarrow>
                              (modules, [RollbackExport ref], repo_unexportReference env ref p1))
                    else ([module], [], p)) of
                (removedModules, journal, p2) \<Rightarrow>
                  (case UninstallRef env t1 ref removedModules p2 of
                     (t2, p3) \<Rightarrow>
                       if isTaskDone (subState t2) then (t2, rollBack env journal p3)
                       else (updateState Succeed t2, logged Critical (repo_mergeModules env p3)))))"

subsection \<open>Entry points and their plans\<close>

text \<open>
  The closure an entry point hands to \<^verbatim>\<open>tasks.addNewTask\<close>, as the values it captures:
  the module install (lines 1111 to 1124), the remote install (lines 1204 to 1244), the
  layer-file install (lines 598 to 727) and the uninstall (lines 1502 to 1508).
\<close>

datatype plan =
    ModulePlan string fuzzy_reference
  | RemotePlan reference "reference option" string bool InteractionMessageType AdditionalMessage
  | LayerPlan reference LayerFile string CommonOptions InteractionMessageType AdditionalMessage "reference option"
  | UninstallPlan reference string

text \<open>\<^verbatim>\<open>fuzzyReferenceFromPackage\<close>, lines 72 to 95.\<close>

definition fuzzyReferenceFromPackage :: "'s env \<Rightarrow> PackageManager1Package \<Rightarrow> fuzzy_reference option" where
  "fuzzyReferenceFromPackage env pkg =
    (case pkg_version pkg of
       None \<Rightarrow> x_fuzzyCreate env (pkg_channel pkg) (pkg_id pkg) None None
     | Some versionString \<Rightarrow>
         (case x_versionParse env versionString of
            None \<Rightarrow> None
          | Some tmpVersion \<Rightarrow> x_fuzzyCreate env (pkg_channel pkg) (pkg_id pkg) (Some tmpVersion) None))"

text \<open>The task's name, \<^verbatim>\<open>"%1:%2/%3/%4/%5"\<close>.\<close>

definition refSpec :: "string \<Rightarrow> reference \<Rightarrow> string \<Rightarrow> string" where
  "refSpec repoName ref module =
     repoName @ '':'' @ channel ref @ ''/'' @ id_ref ref @ ''/'' @ arch ref @ ''/'' @ module"

text \<open>
  The end of every entry point (for the remote install lines 1246 to 1258): register the
  task, announce it, set it to \<open>Queued\<close> and answer with its path.
\<close>

definition enqueue :: "'s env \<Rightarrow> string list \<Rightarrow> plan \<Rightarrow> string \<Rightarrow> 's pm \<Rightarrow> (reply \<times> (plan \<times> PackageTask) option) \<times> 's pm" where
  "enqueue env refSpecs installer message p =
    (case mutate (\<lambda>w. x_addNewTask env w refSpecs) (AddNewTask refSpecs) p of
       (None, p1) \<Rightarrow> ((ErrorResult, None), p1)
     | (Some (taskObjectPath, taskRef), p1) \<Rightarrow>
         ((PackageTaskResult taskObjectPath 0 message, Some (installer, updateState Queued taskRef)),
          emit (TaskAdded taskObjectPath) p1))"

text \<open>
  The message of a refused downgrade, lines 1188 to 1191 and 591 to 593; the command is
  between apostrophes (character 39).
\<close>

definition downgrade_message :: "string \<Rightarrow> string" where
  "downgrade_message name =
     ''The latest version has been installed. If you want to replace it, try using ''
     @ [CHR 0x27] @ ''ll-cli install '' @ name @ '' --force'' @ [CHR 0x27]"

text \<open>\<^verbatim>\<open>Install(parameters)\<close>: the classification and the queueing, lines 1162 to 1258.\<close>

definition Install_classify :: "'s env \<Rightarrow> PackageManager1InstallParameters \<Rightarrow> string \<Rightarrow> reference option \<Rightarrow> reference \<Rightarrow> 's pm \<Rightarrow> (reply \<times> (plan \<times> PackageTask) option) \<times> 's pm" where
  "Install_classify env paras curModule localRef remoteRef p =
    (let additionalMessage =
           \<lparr>localRef_msg = (case localRef of Some l \<Rightarrow> x_toString env l | None \<Rightarrow> []),
            remoteRef_msg = x_toString env remoteRef\<rparr>;
         queue = (\<lambda>msgType.
           enqueue env [refSpec (x_defaultRepo env (world p)) remoteRef curModule]
             (RemotePlan remoteRef localRef curModule (skipInteraction (options paras)) msgType
                additionalMessage)
             (x_toString env remoteRef @ '' is now installing'') p)
     in case localRef of
          None \<Rightarrow> queue Install_msg
        | Some l \<Rightarrow>
            if localRef_msg additionalMessage = [] then queue Install_msg
            else if version remoteRef = version l
            then ((CommonResult (- 1) (x_toString env l @ '' is already installed'') ''display'', None), p)
            else if version remoteRef > version l then queue Upgrade_msg
            else if \<not> force (options paras)
            then ((CommonResult (- 1)
                     (downgrade_message (id_ref remoteRef @ ''/'' @ x_versionToString env (version remoteRef)))
                     ''display'', None), p)
            else queue Install_msg)"

text \<open>\<^verbatim>\<open>Install(parameters)\<close>, lines 1087 to 1259. \<open>None\<close> for parameters that do not deserialise.\<close>

definition Install :: "'s env \<Rightarrow> PackageManager1InstallParameters option \<Rightarrow> 's pm \<Rightarrow> (reply \<times> (plan \<times> PackageTask) option) \<times> 's pm" where
  "Install env parameters p =
    (case parameters of
       None \<Rightarrow> ((ErrorResult, None), p)
     | Some paras \<Rightarrow>
         (case fuzzyReferenceFromPackage env (package paras) of
            None \<Rightarrow> ((ErrorResult, None), p)
          | Some fuzzyRef \<Rightarrow>
              (let curModule = (case packageManager1PackageModule (package paras) of
                                  None \<Rightarrow> ''binary'' | Some m \<Rightarrow> m)
               in if curModule \<noteq> ''binary''
                  then (if fuzzy_version fuzzyRef \<noteq> None
                        then ((CommonResult (- 1) ''cannot specify a version when installing a module''
                                 ''display'', None), p)
                        else enqueue env [x_fuzzyToString env fuzzyRef] (ModulePlan curModule fuzzyRef)
                               ''installing'' p)
                  else (case (if fuzzy_version fuzzyRef \<noteq> None
                              then repo_clearReference env fuzzyRef
                                     \<lparr>forceRemote = None, fallbackToRemote = Some False\<rparr> None p
                              else (None, p)) of
                          (Some ref, p1) \<Rightarrow>
                            ((CommonResult (- 1) (x_toString env ref @ '' is already installed.'')
                                ''display'', None), p1)
                        | (None, p1) \<Rightarrow>
                            (case repo_clearReference env (fuzzyRef\<lparr>fuzzy_version := None\<rparr>)
                                    \<lparr>forceRemote = None, fallbackToRemote = Some False\<rparr> None p1 of
                               (localRef, p2) \<Rightarrow>
                                 (case repo_clearReference env fuzzyRef
                                         \<lparr>forceRemote = Some True, fallbackToRemote = None\<rparr>
                                         (Some curModule) p2 of
                                    (None, p3) \<Rightarrow> ((ErrorResult, None), p3)
                                  | (Some remoteRef, p3) \<Rightarrow>
                                      Install_classify env paras curModule localRef remoteRef p3))))))"

text \<open>\<^verbatim>\<open>Uninstall(parameters)\<close>, lines 1455 to 1522.\<close>

definition Uninstall :: "'s env \<Rightarrow> PackageManager1UninstallParameters option \<Rightarrow> 's pm \<Rightarrow> (reply \<times> (plan \<times> PackageTask) option) \<times> 's pm" where
  "Uninstall env parameters p =
    (case parameters of
       None \<Rightarrow> ((ErrorResult, None), p)
     | Some paras \<Rightarrow>
         (case fuzzyReferenceFromPackage env (uninstall_package paras) of
            None \<Rightarrow> ((ErrorResult, None), p)
          | Some fuzzyRef \<Rightarrow>
              (case repo_clearReference env fuzzyRef
                      \<lparr>forceRemote = None, fallbackToRemote = Some False\<rparr> None p of
                 (None, p1) \<Rightarrow>
                   ((CommonResult (- 1) (x_fuzzyToString env fuzzyRef @ '' not installed.'')
                       ''display'', None), p1)
               | (Some ref, p1) \<Rightarrow>
                   (case isRefBusy env ref p1 of
                      (None, p2) \<Rightarrow>
                        ((CommonResult (- 1)
                            (''failed to get the state of target ref:'' @ x_toString env ref @ '': '')
                            ''display'', None), p2)
                    | (Some True, p2) \<Rightarrow>
                        ((CommonResult (- 1)
                            ''The application is currently running and cannot be uninstalled. Please turn off the application and try again.''
                            ''notification'', None), p2)
                    | (Some False, p2) \<Rightarrow>
                        (let curModule = (case packageManager1PackageModule (uninstall_package paras) of
                                            None \<Rightarrow> ''binary'' | Some m \<Rightarrow> m)
                         in enqueue env [refSpec (x_defaultRepo env (world p2)) ref curModule]
                              (UninstallPlan ref curModule)
                              (x_toString env ref @ '' is now uninstalling'') p2)))))"

text \<open>
  \<^verbatim>\<open>installFromLayer\<close>, lines 495 to 748, up to the queueing. Reading \<^verbatim>\<open>arch[0]\<close> of an
  empty architecture list (line 527) is undefined behaviour.
\<close>

definition installFromLayer_classify :: "'s env \<Rightarrow> CommonOptions \<Rightarrow> LayerFile \<Rightarrow> PackageInfoV2 \<Rightarrow> string \<Rightarrow> reference \<Rightarrow> fuzzy_reference \<Rightarrow> 's pm \<Rightarrow> (reply \<times> (plan \<times> PackageTask) option) \<times> 's pm" where
  "installFromLayer_classify env opts layerFile packageInfo architecture packageRef fuzzyRef p =
    (case repo_clearReference env fuzzyRef \<lparr>forceRemote = None, fallbackToRemote = Some False\<rparr> None p of
       (localRef, p1) \<Rightarrow>
         (case (case localRef of
                  None \<Rightarrow> ([], p1)
                | Some l \<Rightarrow>
                    (case repo_getLayerDir env l (Some (packageInfoV2Module packageInfo)) None p1 of
                       (None, p2) \<Rightarrow> ([], p2)
                     | (Some layerDir, p2) \<Rightarrow>
                         (if dir_valid layerDir then x_toString env l else [], p2))) of
            (localString, p2) \<Rightarrow>
              (let additionalMessage =
                     \<lparr>localRef_msg = localString, remoteRef_msg = x_toString env packageRef\<rparr>;
                   queue = (\<lambda>msgType.
                     enqueue env [refSpec ''local'' packageRef (packageInfoV2Module packageInfo)]
                       (LayerPlan packageRef layerFile (packageInfoV2Module packageInfo) opts msgType
                          additionalMessage localRef)
                       (symLinkTarget layerFile @ '' is now installing'') p2)
               in case localRef of
                    None \<Rightarrow> queue Install_msg
                  | Some l \<Rightarrow>
                      if localString = [] then queue Install_msg
                      else if version packageRef = version l
                      then ((CommonResult (- 1) (x_toString env l @ '' is already installed'')
                               ''display'', None), p2)
                      else if version packageRef > version l then queue Upgrade_msg
                      else if \<not> force opts
                      then ((CommonResult (- 1)
                               (downgrade_message
                                  (id_ref packageRef @ ''_'' @ x_versionToString env (version packageRef)
                                   @ ''_'' @ architecture @ ''_'' @ packageInfoV2Module packageInfo
                                   @ ''.layer''))
                               ''display'', None), p2)
                      else queue Install_msg)))"

definition installFromLayer :: "'s env \<Rightarrow> int \<Rightarrow> CommonOptions \<Rightarrow> 's pm \<Rightarrow> (reply \<times> (plan \<times> PackageTask) option, 's) outcome" where
  "installFromLayer env fd opts p =
    (case query (\<lambda>w. x_layerFileNew env w fd) (LayerFileNew fd) p of
       (None, p1) \<Rightarrow> Returns (ErrorResult, None) p1
     | (Some layerFile, p1) \<Rightarrow>
         (case metaInfo layerFile of
            None \<Rightarrow> Returns (ErrorResult, None) p1
          | Some meta \<Rightarrow>
              (case x_parsePackageInfo env meta of
                 None \<Rightarrow> Returns (ErrorResult, None) p1
               | Some packageInfo \<Rightarrow>
                   if packageInfoV2Module packageInfo \<noteq> ''binary''
                      \<and> packageInfoV2Module packageInfo \<noteq> ''runtime''
                   then Returns (CommonResult (- 1)
                                   ''The current version does not support the develop module installation.''
                                   ''display'', None) p1
                   else (case info_arch packageInfo of
                           [] \<Rightarrow> Undefined p1
                         | arch0 # others \<Rightarrow>
                             (case x_architectureParse env arch0 of
                                None \<Rightarrow> Returns (ErrorResult, None) p1
                              | Some architecture \<Rightarrow>
                                  (case x_currentCPUArchitecture env of
                                     None \<Rightarrow> Returns (ErrorResult, None) p1
                                   | Some currentArch \<Rightarrow>
                                       if architecture \<noteq> currentArch
                                       then Returns (CommonResult (- 1)
                                                       (''app arch:'' @ architecture @ '' not match host architecture'')
                                                       ''display'', None) p1
                                       else (case x_versionParse env (info_version packageInfo) of
                                               None \<Rightarrow> Returns (ErrorResult, None) p1
                                             | Some versionRet \<Rightarrow>
                                                 (case x_fromPackageInfo env packageInfo of
                                                    None \<Rightarrow> Returns (ErrorResult, None) p1
                                                  | Some packageRef \<Rightarrow>
                                                      (case x_fuzzyParse env (id_ref packageRef) of
                                                         None \<Rightarrow> Returns (ErrorResult, None) p1
                                                       | Some fuzzyRef \<Rightarrow>
                                                           (case installFromLayer_classify env opts layerFile
                                                                   packageInfo architecture packageRef fuzzyRef p1 of
                                                              (r, p2) \<Rightarrow> Returns r p2))))))))))"

subsection \<open>The plans of the install tasks\<close>

text \<open>
  The handlers connected to the signal \<^verbatim>\<open>ReplyReceived\<close>: every \<^verbatim>\<open>connect\<close> adds one and every
  \<^verbatim>\<open>disconnect\<close> takes one away, so their number is read off the calls made so far.
  \<^verbatim>\<open>ReplyInteraction\<close> (lines 2048 to 2051) emits the signal, which runs every connected
  handler, the oldest first.
\<close>

definition reply_handlers :: "event list \<Rightarrow> nat" where
  "reply_handlers tr =
    foldl (\<lambda>n e. case e of ConnectReplyReceived \<Rightarrow> Suc n
                       | DisconnectReplyReceived \<Rightarrow> n - 1
                       | _ \<Rightarrow> n) 0 tr"

text \<open>
  The interaction at the head of the layer-file plan and of the bundle plan (lines 608 to
  630 and 873 to 894): for an upgrade without \<^verbatim>\<open>skipInteraction\<close> the plan emits
  \<^verbatim>\<open>RequestInteraction\<close>, connects a handler to \<^verbatim>\<open>ReplyReceived\<close>, waits in an event loop, and
  disconnects the handler when the loop ends. A reply that does not deserialise is
  dereferenced unchecked: undefined behaviour. A handler that an earlier plan left
  connected captures that plan's local variables by reference; the reply runs it on the
  destroyed objects: undefined behaviour.
\<close>

definition request_interaction :: "InteractionMessageType \<Rightarrow> bool \<Rightarrow> AdditionalMessage \<Rightarrow> delivery \<Rightarrow> PackageTask \<Rightarrow> 's pm \<Rightarrow> (PackageTask, 's) outcome" where
  "request_interaction msgType skip additionalMessage received taskRef p =
    (if msgType = Upgrade_msg \<and> \<not> skip
     then (let p1 = emit ConnectReplyReceived (emit (RequestInteraction msgType additionalMessage) p)
           in case received of
                NoReply \<Rightarrow> Blocked p1
              | Malformed \<Rightarrow> Undefined p1
              | Reply action \<Rightarrow>
                  if reply_handlers (trace p) \<noteq> 0 then Undefined p1
                  else Returns (if action \<noteq> ''yes'' then updateState Canceled taskRef else taskRef)
                         (emit DisconnectReplyReceived p1))
     else Returns taskRef p)"

text \<open>
  The interaction at the head of the remote plan (lines 1214 to 1234): the same, but the
  handler, which captures the plan's \<^verbatim>\<open>interactionReply\<close> and \<^verbatim>\<open>loop\<close> by reference, is
  never disconnected.
\<close>

definition request_interaction_remote :: "InteractionMessageType \<Rightarrow> bool \<Rightarrow> AdditionalMessage \<Rightarrow> delivery \<Rightarrow> PackageTask \<Rightarrow> 's pm \<Rightarrow> (PackageTask, 's) outcome" where
  "request_interaction_remote msgType skip additionalMessage received taskRef p =
    (if msgType = Upgrade_msg \<and> \<not> skip
     then (let p1 = emit ConnectReplyReceived (emit (RequestInteraction msgType additionalMessage) p)
           in case received of
                NoReply \<Rightarrow> Blocked p1
              | Malformed \<Rightarrow> Undefined p1
              | Reply action \<Rightarrow>
                  if reply_handlers (trace p) \<noteq> 0 then Undefined p1
                  else Returns (if action \<noteq> ''yes'' then updateState Canceled taskRef else taskRef) p1)
     else Returns taskRef p)"

text \<open>The plan of a module install, lines 1111 to 1124.\<close>

definition installer_module :: "'s env \<Rightarrow> string \<Rightarrow> fuzzy_reference \<Rightarrow> PackageTask \<Rightarrow> 's pm \<Rightarrow> (PackageTask, 's) outcome" where
  "installer_module env curModule fuzzyRef taskRef p =
    (case repo_clearReference env fuzzyRef \<lparr>forceRemote = None, fallbackToRemote = Some False\<rparr> None p of
       (None, p1) \<Rightarrow> Returns (updateState Failed taskRef) p1
     | (Some localRef, p1) \<Rightarrow>
         (case repo_getModuleList env localRef p1 of
            (modules, p2) \<Rightarrow>
              if curModule \<in> set modules then Returns (updateState Failed taskRef) p2
              else Install_task env taskRef localRef None [curModule] p2))"

text \<open>The plan of a remote install, lines 1212 to 1244.\<close>

definition installer_remote :: "'s env \<Rightarrow> reference \<Rightarrow> reference option \<Rightarrow> string \<Rightarrow> bool \<Rightarrow> InteractionMessageType \<Rightarrow> AdditionalMessage \<Rightarrow> delivery \<Rightarrow> PackageTask \<Rightarrow> 's pm \<Rightarrow> (PackageTask, 's) outcome" where
  "installer_remote env remoteRef localRef curModule skip msgType additionalMessage received taskRef p =
    (case request_interaction_remote msgType skip additionalMessage received taskRef p of
       Blocked p1 \<Rightarrow> Blocked p1
     | Undefined p1 \<Rightarrow> Undefined p1
     | Returns t p1 \<Rightarrow>
         if isTaskDone (subState t) then Returns t p1
         else (case (case localRef of
                       Some l \<Rightarrow> repo_getModuleList env l p1
                     | None \<Rightarrow> ([curModule], p1)) of
                 (modules, p2) \<Rightarrow> Install_task env t remoteRef localRef modules p2))"

text \<open>The plan of a layer-file install after the layer is unpacked, lines 656 to 726.\<close>

definition installer_layer_unpacked :: "'s env \<Rightarrow> string \<Rightarrow> reference option \<Rightarrow> LayerDir \<Rightarrow> PackageTask \<Rightarrow> 's pm \<Rightarrow> PackageTask \<times> 's pm" where
  "installer_layer_unpacked env module localRef layerDir t p =
    (case dir_info layerDir of
       None \<Rightarrow> (reportError t, p)
     | Some info \<Rightarrow>
         (case pullDependency env t info module p of
            (t1, p1) \<Rightarrow>
              if isTaskDone (subState t1) then (t1, p1)
              else (case repo_importLayerDir env layerDir [] None p1 of
                      (False, p2) \<Rightarrow> (reportError t1, p2)
                    | (True, p2) \<Rightarrow>
                        if module \<noteq> ''binary'' \<and> module \<noteq> ''runtime''
                        then (updateState Succeed t1, p2)
                        else if info_kind info \<noteq> ''app'' then (updateState Succeed t1, p2)
                        else (case localRef of
                                None \<Rightarrow>
                                  (case x_fromPackageInfo env info of
                                     None \<Rightarrow> (reportError (updateState Succeed t1), p2)
                                   | Some newRef \<Rightarrow>
                                       (case generateCache env newRef p2 of
                                          (False, p3) \<Rightarrow> (reportError (updateState Succeed t1), p3)
                                        | (True, p3) \<Rightarrow>
                                            (updateState Succeed t1, repo_exportReference env newRef p3)))
                              | Some old \<Rightarrow>
                                  (case repo_getModuleList env old p2 of
                                     (modules, p3) \<Rightarrow>
                                       if module \<notin> set modules then (updateState Succeed t1, p3)
                                       else (case x_fromPackageInfo env info of
                                               None \<Rightarrow> (reportError (updateState Succeed t1), p3)
                                             | Some newRef \<Rightarrow>
                                                 (case generateCache env newRef p3 of
                                                    (False, p4) \<Rightarrow>
                                                      (reportError (updateState Succeed t1), p4)
                                                  | (True, p4) \<Rightarrow>
                                                      (updateState Succeed t1,
                                                       logged Critical
                                                         (removeAfterInstall env old newRef [module] p4)))))))))"

text \<open>
  The plan of a layer-file install, lines 607 to 727. The \<^verbatim>\<open>finally\<close> block unmounts the
  layer on every way out once it is unpacked.
\<close>

definition installer_layer :: "'s env \<Rightarrow> reference \<Rightarrow> LayerFile \<Rightarrow> string \<Rightarrow> CommonOptions \<Rightarrow> InteractionMessageType \<Rightarrow> AdditionalMessage \<Rightarrow> reference option \<Rightarrow> delivery \<Rightarrow> PackageTask \<Rightarrow> 's pm \<Rightarrow> (PackageTask, 's) outcome" where
  "installer_layer env packageRef layerFile module opts msgType additionalMessage localRef received taskRef p =
    (case request_interaction msgType (skipInteraction opts) additionalMessage received taskRef p of
       Blocked p1 \<Rightarrow> Blocked p1
     | Undefined p1 \<Rightarrow> Undefined p1
     | Returns t p1 \<Rightarrow>
         if isTaskDone (subState t) then Returns t p1
         else (case mutate (\<lambda>w. x_unpack env w layerFile) Unpack p1 of
                 (None, p2) \<Rightarrow>
                   Returns (reportError (updateSubState PreAction (updateState Processing t))) p2
               | (Some layerDir, p2) \<Rightarrow>
                   (case installer_layer_unpacked env module localRef layerDir
                           (updateSubState PreAction (updateState Processing t)) p2 of
                      (t1, p3) \<Rightarrow>
                        Returns t1
                          (logged Critical
                             (mutate (\<lambda>w. x_umount env w (dir_path layerDir))
                                (Umount (dir_path layerDir)) p3)))))"

text \<open>
  The plan of a bundle (UAB) install, lines 872 to 1040. What the loop does with one
  layer before the import, lines 927 to 991: it fails the task, it dereferences a fuzzy
  reference that did not parse (line 979, undefined behaviour), it skips a layer that is
  installed in the same version, or it goes on to import.
\<close>

datatype uab_step =
    StepFail PackageTask
  | StepUndefined
  | StepSkip
  | StepImport string PackageInfoV2 "string list" "string option" reference

definition uab_prepare :: "'s env \<Rightarrow> string \<Rightarrow> string \<Rightarrow> UabLayer \<Rightarrow> PackageTask \<Rightarrow> 's pm \<Rightarrow> uab_step \<times> 's pm" where
  "uab_prepare env uuid uabLayersDir layer t p =
    (let layerDirPath = uabLayersDir @ ''/'' @ info_id (layer_info layer) @ ''/''
                        @ packageInfoV2Module (layer_info layer)
     in if \<not> x_exists env (world p) layerDirPath then (StepFail (updateState Failed t), p)
        else (case x_layerDirInfo env (world p) layerDirPath of
                None \<Rightarrow> (StepFail (reportError t), p)
              | Some info \<Rightarrow>
                  (case x_fromPackageInfo env info of
                     None \<Rightarrow> (StepFail (reportError t), p)
                   | Some ref \<Rightarrow>
                       (if info_kind (layer_info layer) = ''app''
                           then (case mutate (x_extractSignData env) ExtractSignData p of
                                   (None, p1) \<Rightarrow> (StepFail (reportError t), p1)
                                 | (Some signData, p1) \<Rightarrow>
                                     (StepImport layerDirPath info
                                        (if signData \<noteq> [] then [signData] else []) None ref, p1))
                           else (case x_fuzzyParse env
                                        (id_ref ref @ ''/'' @ x_versionToString env (version ref)) of
                                   None \<Rightarrow> (StepUndefined, p)
                                 | Some fuzzyRef \<Rightarrow>
                                     (case repo_clearReference env fuzzyRef
                                             \<lparr>forceRemote = None, fallbackToRemote = Some False\<rparr> None p of
                                        (None, p1) \<Rightarrow>
                                          (StepImport layerDirPath info []
                                             (if minified layer then Some uuid else None) ref, p1)
                                      | (Some localRef, p1) \<Rightarrow>
                                          (case repo_getLayerDir env localRef
                                                  (Some (packageInfoV2Module info)) None p1 of
                                             (found, p2) \<Rightarrow>
                                               (if (case found of Some d \<Rightarrow> dir_valid d | None \<Rightarrow> False)
                                                   \<and> version ref = version localRef
                                                then StepSkip
                                                else StepImport layerDirPath info []
                                                       (if minified layer then Some uuid else None) ref,
                                                p2))))))))"

text \<open>
  The loop over the layers, lines 922 to 1013. The first component of the result says
  whether the loop ran to its end.
\<close>

fun uab_layers :: "'s env \<Rightarrow> string \<Rightarrow> string \<Rightarrow> UabLayer list \<Rightarrow> rollback list \<Rightarrow> PackageTask \<Rightarrow> 's pm \<Rightarrow> (bool \<times> rollback list \<times> PackageTask, 's) outcome" where
  "uab_layers env uuid uabLayersDir [] journal t p = Returns (True, journal, t) p"
| "uab_layers env uuid uabLayersDir (layer # rest) journal t p =
    (if isTaskDone (subState t) then Returns (False, journal, t) p
     else (case uab_prepare env uuid uabLayersDir layer t p of
             (StepFail t1, p1) \<Rightarrow> Returns (False, journal, t1) p1
           | (StepUndefined, p1) \<Rightarrow> Undefined p1
           | (StepSkip, p1) \<Rightarrow> uab_layers env uuid uabLayersDir rest journal t p1
           | (StepImport layerDirPath info overlays subRef ref, p1) \<Rightarrow>
               (case repo_importLayerDir env
                       \<lparr>dir_path = layerDirPath, dir_valid = True, dir_info = Some info\<rparr>
                       overlays subRef p1 of
                  (False, p2) \<Rightarrow> Returns (False, journal, reportError t) p2
                | (True, p2) \<Rightarrow>
                    uab_layers env uuid uabLayersDir rest
                      (journal @ [RollbackRemove ref (packageInfoV2Module info) subRef])
                      t
                      (foldl (\<lambda>q dir. logged Warning
                                (mutate (\<lambda>w. x_remove_all env w dir) (RemoveAll dir) q))
                         p2 overlays))))"

definition installer_uab :: "'s env \<Rightarrow> string \<Rightarrow> UabLayer list \<Rightarrow> CommonOptions \<Rightarrow> InteractionMessageType \<Rightarrow> AdditionalMessage \<Rightarrow> reference \<Rightarrow> reference option \<Rightarrow> delivery \<Rightarrow> PackageTask \<Rightarrow> 's pm \<Rightarrow> (PackageTask, 's) outcome" where
  "installer_uab env uuid layerInfos opts msgType additionalMessage newAppRef oldAppRef received taskRef p =
    (case request_interaction msgType (skipInteraction opts) additionalMessage received taskRef p of
       Blocked p1 \<Rightarrow> Blocked p1
     | Undefined p1 \<Rightarrow> Undefined p1
     | Returns t p1 \<Rightarrow>
         if isTaskDone (subState t) then Returns t p1
         else (case mutate (x_mountUab env) MountUab p1 of
                 (None, p2) \<Rightarrow>
                   Returns (reportError (updateSubState PreAction (updateState Processing t))) p2
               | (Some mountPoint, p2) \<Rightarrow>
                   if isTaskDone (subState (updateSubState PreAction (updateState Processing t)))
                   then Returns (updateSubState PreAction (updateState Processing t)) p2
                   else if \<not> x_isDir env (world p2) (mountPoint @ ''/layers'')
                   then Returns (updateState Failed (updateSubState PreAction (updateState Processing t))) p2
                   else (case uab_layers env uuid (mountPoint @ ''/layers'') layerInfos []
                                (updateSubState PreAction (updateState Processing t)) p2 of
                           Blocked p3 \<Rightarrow> Blocked p3
                         | Undefined p3 \<Rightarrow> Undefined p3
                         | Returns (False, journal, t1) p3 \<Rightarrow> Returns t1 (rollBack env journal p3)
                         | Returns (True, journal, t1) p3 \<Rightarrow>
                             (case oldAppRef of
                                Some old \<Rightarrow>
                                  (case repo_getModuleList env old p3 of
                                     (modules, p4) \<Rightarrow>
                                       Returns (updateState Succeed t1)
                                         (logged Critical
                                            (removeAfterInstall env old newAppRef modules p4)))
                              | None \<Rightarrow>
                                  (case generateCache env newAppRef
                                          (repo_exportReference env newAppRef
                                             (logged Critical (repo_mergeModules env p3))) of
                                     (False, p4) \<Rightarrow>
                                       Returns (updateState Failed t1) (rollBack env journal p4)
                                   | (True, p4) \<Rightarrow> Returns (updateState Succeed t1) p4)))))"

text \<open>What the worker runs for a queued plan; \<open>received\<close> is what the interaction hears.\<close>

fun run_plan :: "'s env \<Rightarrow> plan \<Rightarrow> delivery \<Rightarrow> PackageTask \<Rightarrow> 's pm \<Rightarrow> (PackageTask, 's) outcome" where
  "run_plan env (ModulePlan curModule fuzzyRef) received taskRef p =
     installer_module env curModule fuzzyRef taskRef p"
| "run_plan env (RemotePlan remoteRef localRef curModule skip msgType additionalMessage) received taskRef p =
     installer_remote env remoteRef localRef curModule skip msgType additionalMessage received taskRef p"
| "run_plan env (LayerPlan packageRef layerFile module opts msgType additionalMessage localRef) received taskRef p =
     installer_layer env packageRef layerFile module opts msgType additionalMessage localRef received taskRef p"
| "run_plan env (UninstallPlan ref curModule) received taskRef p =
     (case Uninstall_task env taskRef ref curModule p of (t, p1) \<Rightarrow> Returns t p1)"

subsection \<open>\<^verbatim>\<open>Prune\<close>, lines 1942 to 2046\<close>

text \<open>
  \<open>target\<close> is a \<^verbatim>\<open>std::unordered_map\<close> from references to counters, kept here in the
  order of insertion. \<^verbatim>\<open>try_emplace(ref, 0)\<close> leaves an existing entry alone;
  \<^verbatim>\<open>target[ref] += 1\<close> inserts a zero first when the key is new. The counter is a C++
  \<^verbatim>\<open>int\<close>; it is bounded by twice the number of layer items, and is modelled unbounded.
\<close>

type_synonym target = "(reference \<times> int) list"

definition target_try_emplace :: "reference \<Rightarrow> target \<Rightarrow> target" where
  "target_try_emplace ref target = (if ref \<in> fst ` set target then target else target @ [(ref, 0)])"

definition target_increment :: "reference \<Rightarrow> target \<Rightarrow> target" where
  "target_increment ref target =
    (if ref \<in> fst ` set target
     then map (\<lambda>entry. if fst entry = ref then (fst entry, snd entry + 1) else entry) target
     else target @ [(ref, 1)])"

text \<open>The first loop, lines 1952 to 2004.\<close>

fun count_dependencies :: "'s env \<Rightarrow> PackageInfoV2 list \<Rightarrow> target \<Rightarrow> 's pm \<Rightarrow> target \<times> 's pm" where
  "count_dependencies env [] target p = (target, p)"
| "count_dependencies env (info # rest) target p =
    (if packageInfoV2Module info \<noteq> ''binary'' \<and> packageInfoV2Module info \<noteq> ''runtime''
     then count_dependencies env rest target p
     else if info_kind info \<noteq> ''app''
     then (case x_fromPackageInfo env info of
             None \<Rightarrow> count_dependencies env rest target (emit (Log Warning) p)
           | Some ref \<Rightarrow> count_dependencies env rest (target_try_emplace ref target) p)
     else (case (case info_runtime info of
                   None \<Rightarrow> (True, target, p)
                 | Some runtimeString \<Rightarrow>
                     (case x_fuzzyParse env runtimeString of
                        None \<Rightarrow> (False, target, emit (Log Warning) p)
                      | Some runtimeFuzzyRef \<Rightarrow>
                          (case repo_clearReference env runtimeFuzzyRef
                                  \<lparr>forceRemote = Some False, fallbackToRemote = Some False\<rparr> None p of
                             (None, p1) \<Rightarrow> (False, target, emit (Log Warning) p1)
                           | (Some runtimeRef, p1) \<Rightarrow> (True, target_increment runtimeRef target, p1)))) of
             (False, target1, p1) \<Rightarrow> count_dependencies env rest target1 p1
           | (True, target1, p1) \<Rightarrow>
               (case x_fuzzyParse env (info_base info) of
                  None \<Rightarrow> count_dependencies env rest target1 (emit (Log Warning) p1)
                | Some baseFuzzyRef \<Rightarrow>
                    (case repo_clearReference env baseFuzzyRef
                            \<lparr>forceRemote = Some False, fallbackToRemote = Some False\<rparr> None p1 of
                       (None, p2) \<Rightarrow> count_dependencies env rest target1 (emit (Log Warning) p2)
                     | (Some baseRef, p2) \<Rightarrow>
                         count_dependencies env rest (target_increment baseRef target1) p2))))"

text \<open>The modules of one unreferenced entry, lines 2012 to 2032.\<close>

fun prune_modules :: "'s env \<Rightarrow> reference \<Rightarrow> string list \<Rightarrow> PackageInfoV2 list \<Rightarrow> 's pm \<Rightarrow> bool \<times> PackageInfoV2 list \<times> 's pm" where
  "prune_modules env ref [] removed p = (True, removed, p)"
| "prune_modules env ref (module # rest) removed p =
    (case repo_getLayerDir env ref (Some module) None p of
       (None, p1) \<Rightarrow> prune_modules env ref rest removed (emit (Log Warning) p1)
     | (Some layer, p1) \<Rightarrow>
         (case dir_info layer of
            None \<Rightarrow> prune_modules env ref rest removed (emit (Log Warning) p1)
          | Some info \<Rightarrow>
              (case repo_remove env ref module None p1 of
                 (False, p2) \<Rightarrow> (False, removed @ [info], p2)
               | (True, p2) \<Rightarrow> prune_modules env ref rest (removed @ [info]) p2)))"

text \<open>The second loop, lines 2006 to 2033.\<close>

fun prune_targets :: "'s env \<Rightarrow> target \<Rightarrow> PackageInfoV2 list \<Rightarrow> 's pm \<Rightarrow> bool \<times> PackageInfoV2 list \<times> 's pm" where
  "prune_targets env [] removed p = (True, removed, p)"
| "prune_targets env (it # rest) removed p =
    (if snd it \<noteq> 0 then prune_targets env rest removed p
     else (case repo_getModuleList env (fst it) p of
             (modules, p1) \<Rightarrow>
               (case prune_modules env (fst it) modules removed p1 of
                  (False, removed1, p2) \<Rightarrow> (False, removed1, p2)
                | (True, removed1, p2) \<Rightarrow> prune_targets env rest removed1 p2)))"

text \<open>The result: whether \<^verbatim>\<open>Prune\<close> returned \<^verbatim>\<open>LINGLONG_OK\<close>, and the list \<open>removed\<close>.\<close>

definition Prune :: "'s env \<Rightarrow> PackageInfoV2 list \<Rightarrow> 's pm \<Rightarrow> (bool \<times> PackageInfoV2 list) \<times> 's pm" where
  "Prune env removed p =
    (case repo_listLocal env p of
       (None, p1) \<Rightarrow> ((False, removed), p1)
     | (Some pkgsInfo, p1) \<Rightarrow>
         (case count_dependencies env pkgsInfo [] p1 of
            (target, p2) \<Rightarrow>
              (case prune_targets env target removed p2 of
                 (False, removed1, p3) \<Rightarrow> ((False, removed1), p3)
               | (True, removed1, p3) \<Rightarrow>
                   (case repo_prune env
                           (if target \<noteq> [] then logged Critical (repo_mergeModules env p3) else p3) of
                      (False, p4) \<Rightarrow> ((False, removed1), p4)
                    | (True, p4) \<Rightarrow> ((True, removed1), p4)))))"

subsection \<open>A concrete world for running the definitions\<close>

text \<open>
  Modelled from the spec: a small layer store after section 4.2, with the inventory of
  section 4.4, used to run the definitions above on concrete inputs. A layer item is kept
  with its deleted flag; local resolution picks the highest version among the items that
  are not marked deleted, remote resolution among the packages of the remote.
\<close>

record demo_world =
  local_layers :: "(RepositoryCacheLayersItem \<times> bool) list"
  remote_packages :: "PackageInfoV2 list"
  running_containers :: "ContainerProcessStateInfo list"
  exported_refs :: "reference list"
  layer_files :: "(int \<times> LayerFile) list"
  lock_held_elsewhere :: bool

definition demo_versionParse :: "string \<Rightarrow> version option" where
  "demo_versionParse s =
    (if s = ''1.0.0'' then Some [1, 0, 0]
     else if s = ''1.1.0'' then Some [1, 1, 0]
     else if s = ''2.0.0'' then Some [2, 0, 0]
     else None)"

definition demo_versionToString :: "version \<Rightarrow> string" where
  "demo_versionToString v =
    (if v = [1, 0, 0] then ''1.0.0''
     else if v = [1, 1, 0] then ''1.1.0''
     else if v = [2, 0, 0] then ''2.0.0''
     else ''0'')"

definition demo_toString :: "reference \<Rightarrow> string" where
  "demo_toString r = channel r @ '':'' @ id_ref r @ ''/'' @ demo_versionToString (version r) @ ''/'' @ arch r"

definition demo_fromPackageInfo :: "PackageInfoV2 \<Rightarrow> reference option" where
  "demo_fromPackageInfo info =
    (case demo_versionParse (info_version info) of
       None \<Rightarrow> None
     | Some v \<Rightarrow>
         (case info_arch info of
            [] \<Rightarrow> None
          | a # others \<Rightarrow>
              Some \<lparr>channel = info_channel info, id_ref = info_id info, version = v, arch = a\<rparr>))"

definition demo_package :: "string \<Rightarrow> string \<Rightarrow> string \<Rightarrow> string \<Rightarrow> string option \<Rightarrow> PackageInfoV2" where
  "demo_package name ver kind module runtimeDep =
    \<lparr>info_arch = [''x86_64''], info_base = ''org.example.base'', info_channel = ''stable'',
     info_id = name, info_kind = kind, packageInfoV2Module = module, info_runtime = runtimeDep,
     info_uuid = None, info_version = ver\<rparr>"

definition demo_ref :: "string \<Rightarrow> version \<Rightarrow> reference" where
  "demo_ref name v = \<lparr>channel = ''stable'', id_ref = name, version = v, arch = ''x86_64''\<rparr>"

text \<open>The references a string can parse to in the concrete world.\<close>

definition demo_parse :: "string \<Rightarrow> reference option" where
  "demo_parse s =
    find (\<lambda>r. demo_toString r = s)
      [demo_ref ''org.example.calc'' [1, 0, 0], demo_ref ''org.example.calc'' [1, 1, 0],
       demo_ref ''org.example.base'' [1, 0, 0]]"

definition demo_item_is :: "reference \<Rightarrow> string \<Rightarrow> RepositoryCacheLayersItem \<times> bool \<Rightarrow> bool" where
  "demo_item_is r module entry =
    (demo_fromPackageInfo (item_info (fst entry)) = Some r
     \<and> packageInfoV2Module (item_info (fst entry)) = module)"

definition demo_matches :: "fuzzy_reference \<Rightarrow> reference \<Rightarrow> bool" where
  "demo_matches fuzzy r =
    (fuzzy_id fuzzy = id_ref r
     \<and> (fuzzy_channel fuzzy = None \<or> fuzzy_channel fuzzy = Some (channel r))
     \<and> (fuzzy_version fuzzy = None \<or> fuzzy_version fuzzy = Some (version r))
     \<and> (fuzzy_arch fuzzy = None \<or> fuzzy_arch fuzzy = Some (arch r)))"

fun demo_latest :: "reference list \<Rightarrow> reference option" where
  "demo_latest [] = None"
| "demo_latest (r # rs) =
    (case demo_latest rs of
       None \<Rightarrow> Some r
     | Some best \<Rightarrow> if version best < version r then Some r else Some best)"

definition demo_refs :: "PackageInfoV2 list \<Rightarrow> reference list" where
  "demo_refs infos = concat (map (\<lambda>info. case demo_fromPackageInfo info of None \<Rightarrow> [] | Some r \<Rightarrow> [r]) infos)"

definition demo_local :: "demo_world \<Rightarrow> PackageInfoV2 list" where
  "demo_local w = map (\<lambda>entry. item_info (fst entry)) (filter (\<lambda>entry. \<not> snd entry) (local_layers w))"

definition demo_clearReference :: "demo_world \<Rightarrow> fuzzy_reference \<Rightarrow> clearReferenceOption \<Rightarrow> string option \<Rightarrow> reference option" where
  "demo_clearReference w fuzzy opts module =
    (let found_local = demo_latest (filter (demo_matches fuzzy) (demo_refs (demo_local w)));
         found_remote = demo_latest (filter (demo_matches fuzzy) (demo_refs (remote_packages w)))
     in if forceRemote opts = Some True then found_remote
        else (case found_local of
                Some r \<Rightarrow> Some r
              | None \<Rightarrow> if fallbackToRemote opts = Some False then None else found_remote))"

definition demo_env :: "demo_world env" where
  "demo_env =
    \<lparr>x_toString = demo_toString,
     x_parse = demo_parse,
     x_fromPackageInfo = demo_fromPackageInfo,
     x_fuzzyParse = (\<lambda>s. if s = [] then None
                          else Some \<lparr>fuzzy_channel = None, fuzzy_id = s, fuzzy_version = None, fuzzy_arch = None\<rparr>),
     x_fuzzyCreate = (\<lambda>c i v a. if i = [] then None
                                 else Some \<lparr>fuzzy_channel = c, fuzzy_id = i, fuzzy_version = v, fuzzy_arch = a\<rparr>),
     x_fuzzyToString = fuzzy_id,
     x_versionParse = demo_versionParse,
     x_versionToString = demo_versionToString,
     x_architectureParse = Some,
     x_currentCPUArchitecture = Some ''x86_64'',
     x_createTemporaryTask = \<lparr>state = Queued, subState = PreAction\<rparr>,
     x_open = (\<lambda>w. 3),
     x_fcntl_lock = (\<lambda>w fd. \<not> lock_held_elsewhere w),
     x_fcntl_unlock = (\<lambda>w fd. True),
     x_getAllRunningContainers = (\<lambda>w. Some (running_containers w)),
     x_listLocalBy = (\<lambda>w q. Some (map fst (filter (\<lambda>entry.
         (query_id q = None \<or> query_id q = Some (info_id (item_info (fst entry))))
         \<and> (query_channel q = None \<or> query_channel q = Some (info_channel (item_info (fst entry))))
         \<and> (query_version q = None \<or> query_version q = Some (info_version (item_info (fst entry))))
         \<and> (query_deleted q = None \<or> query_deleted q = Some (snd entry))) (local_layers w)))),
     x_listLocal = (\<lambda>w. Some (demo_local w)),
     x_clearReference = demo_clearReference,
     x_getModuleList = (\<lambda>w r. map (\<lambda>entry. packageInfoV2Module (item_info (fst entry)))
         (filter (\<lambda>entry. demo_fromPackageInfo (item_info (fst entry)) = Some r) (local_layers w))),
     x_getRemoteModuleList = (\<lambda>w r modules. Some (filter (\<lambda>m.
         list_ex (\<lambda>info. demo_fromPackageInfo info = Some r \<and> packageInfoV2Module info = m) (remote_packages w)) modules)),
     x_getLayerItem = (\<lambda>w r. map_option fst
         (find (\<lambda>entry. demo_fromPackageInfo (item_info (fst entry)) = Some r) (local_layers w))),
     x_getLayerDir = (\<lambda>w r module subRef.
         map_option (\<lambda>entry. \<lparr>dir_path = commit (fst entry), dir_valid = True,
                              dir_info = Some (item_info (fst entry))\<rparr>)
           (find (demo_item_is r (case module of None \<Rightarrow> ''binary'' | Some m \<Rightarrow> m)) (local_layers w))),
     x_defaultRepo = (\<lambda>w. ''repo''),
     x_markDeleted = (\<lambda>w r deleted module.
         if list_ex (demo_item_is r module) (local_layers w)
         then (True, w\<lparr>local_layers := map (\<lambda>entry. if demo_item_is r module entry
                                              then (fst entry, deleted) else entry) (local_layers w)\<rparr>)
         else (False, w)),
     x_unexportReference = (\<lambda>w r. w\<lparr>exported_refs := removeAll r (exported_refs w)\<rparr>),
     x_exportReference = (\<lambda>w r. w\<lparr>exported_refs := r # removeAll r (exported_refs w)\<rparr>),
     x_remove = (\<lambda>w r module subRef.
         if list_ex (demo_item_is r module) (local_layers w)
         then (True, w\<lparr>local_layers := filter (\<lambda>entry. \<not> demo_item_is r module entry) (local_layers w)\<rparr>)
         else (False, w)),
     x_mergeModules = (\<lambda>w. (True, w)),
     x_pull = (\<lambda>w t r module.
         case find (\<lambda>info. demo_fromPackageInfo info = Some r \<and> packageInfoV2Module info = module) (remote_packages w) of
           None \<Rightarrow> (reportError t, w)
         | Some info \<Rightarrow> (t, w\<lparr>local_layers := local_layers w @ [(\<lparr>commit = info_id info, item_info = info\<rparr>, False)]\<rparr>)),
     x_importLayerDir = (\<lambda>w dir overlays subRef.
         case dir_info dir of
           None \<Rightarrow> (False, w)
         | Some info \<Rightarrow> (True, w\<lparr>local_layers := local_layers w @ [(\<lparr>commit = info_id info, item_info = info\<rparr>, False)]\<rparr>)),
     x_prune = (\<lambda>w. (True, w)),
     x_remove_all = (\<lambda>w path. (True, w)),
     x_runCacheGenerator = (\<lambda>w r. (True, w)),
     x_addNewTask = (\<lambda>w refSpecs. (Some (''/org/deepin/linglong/Task1'', \<lparr>state = Queued, subState = PreAction\<rparr>), w)),
     x_parsePackageInfo = (\<lambda>meta. Some (demo_package ''org.example.calc'' ''1.1.0'' ''app'' meta None)),
     x_layerFileNew = (\<lambda>w fd. map_of (layer_files w) fd),
     x_unpack = (\<lambda>w layerFile. (None, w)),
     x_umount = (\<lambda>w path. (True, w)),
     x_mountUab = (\<lambda>w. (None, w)),
     x_isDir = (\<lambda>w path. False),
     x_exists = (\<lambda>w path. False),
     x_layerDirInfo = (\<lambda>w path. None),
     x_extractSignData = (\<lambda>w. (None, w))\<rparr>"

text \<open>The engine at rest over a world: nothing traced, no lock descriptor.\<close>

definition at_rest :: "'s \<Rightarrow> 's pm" where
  "at_rest w = \<lparr>world = w, trace = [], lockFd = - 1\<rparr>"

text \<open>A layer item of the concrete world.\<close>

definition demo_layer :: "string \<Rightarrow> string \<Rightarrow> string \<Rightarrow> string \<Rightarrow> string option \<Rightarrow> bool \<Rightarrow> RepositoryCacheLayersItem \<times> bool" where
  "demo_layer name ver kind module runtimeDep deleted =
    (\<lparr>commit = name @ ''-'' @ ver, item_info = demo_package name ver kind module runtimeDep\<rparr>, deleted)"

definition demo_store :: "(RepositoryCacheLayersItem \<times> bool) list \<Rightarrow> PackageInfoV2 list \<Rightarrow> ContainerProcessStateInfo list \<Rightarrow> demo_world" where
  "demo_store local offered containers =
    \<lparr>local_layers = local, remote_packages = offered, running_containers = containers, exported_refs = [], layer_files = [],
     lock_held_elsewhere = False\<rparr>"

subsection \<open>Concrete inputs\<close>

text \<open>
  A store with versions 1.0.0 and 1.1.0 of an application, and a running container of
  1.0.0.
\<close>

definition W1 :: demo_world where
  "W1 = demo_store
     [demo_layer ''org.example.calc'' ''1.0.0'' ''app'' ''binary'' None False,
      demo_layer ''org.example.calc'' ''1.1.0'' ''app'' ''binary'' None False]
     []
     [\<lparr>app = ''stable:org.example.calc/1.0.0/x86_64''\<rparr>]"

text \<open>
  The lookups of \<^verbatim>\<open>Install(parameters)\<close> before it classifies (lines 1142 to 1175), as they
  appear in the trace: of the requested version when one is given, of the installed
  reference with the same id, and of the remote reference.
\<close>

definition Install_lookups :: "fuzzy_reference \<Rightarrow> reference \<Rightarrow> reference \<Rightarrow> event list" where
  "Install_lookups fuzzyRef localRef remoteRef =
    (if fuzzy_version fuzzyRef \<noteq> None
     then [ClearReference fuzzyRef \<lparr>forceRemote = None, fallbackToRemote = Some False\<rparr> None None]
     else [])
    @ [ClearReference (fuzzyRef\<lparr>fuzzy_version := None\<rparr>)
         \<lparr>forceRemote = None, fallbackToRemote = Some False\<rparr> None (Some localRef),
       ClearReference fuzzyRef \<lparr>forceRemote = Some True, fallbackToRemote = None\<rparr>
         (Some ''binary'') (Some remoteRef)]"

text \<open>
  Version 1.0.0 of an application installed, version 1.1.0 on the remote, and the request
  to install the application.
\<close>

definition W3 :: demo_world where
  "W3 = demo_store
     [demo_layer ''org.example.calc'' ''1.0.0'' ''app'' ''binary'' None False]
     [demo_package ''org.example.calc'' ''1.1.0'' ''app'' ''binary'' None]
     []"

definition calc_request :: PackageManager1InstallParameters where
  "calc_request =
    \<lparr>options = \<lparr>force = False, skipInteraction = False\<rparr>,
     package = \<lparr>pkg_channel = None, pkg_id = ''org.example.calc'',
                packageManager1PackageModule = None, pkg_version = None\<rparr>\<rparr>"

text \<open>The request to uninstall version 1.0.0 of the application.\<close>

definition calc_1_0_request :: PackageManager1UninstallParameters where
  "calc_1_0_request =
    \<lparr>uninstall_package = \<lparr>pkg_channel = None, pkg_id = ''org.example.calc'',
                packageManager1PackageModule = None, pkg_version = Some ''1.0.0''\<rparr>\<rparr>"

text \<open>An empty store and, on descriptor 0, a layer file whose module is \<open>develop\<close>.\<close>

definition W9 :: demo_world where
  "W9 = (demo_store [] [] [])\<lparr>layer_files := [(0, \<lparr>symLinkTarget = ''/tmp/calc_develop.layer'', metaInfo = Some ''develop''\<rparr>)]\<rparr>"

subsection \<open>The lock discipline of a trace\<close>

text \<open>
  The calls that read the container inventory, or read or change the layer store or a
  derived cache.
\<close>

definition store_access :: "event \<Rightarrow> bool" where
  "store_access e =
    (case e of
       GetAllRunningContainers \<Rightarrow> True
     | RemoveCache r \<Rightarrow> True
     | RemoveAll path \<Rightarrow> True
     | GenerateCache r \<Rightarrow> True
     | ListLocalBy q \<Rightarrow> True
     | ListLocal \<Rightarrow> True
     | ClearReference f opts m r \<Rightarrow> True
     | GetModuleList r ms \<Rightarrow> True
     | GetRemoteModuleList r ms \<Rightarrow> True
     | GetLayerItem r \<Rightarrow> True
     | GetLayerDir r m u \<Rightarrow> True
     | MarkDeleted r d m \<Rightarrow> True
     | UnexportReference r \<Rightarrow> True
     | ExportReference r \<Rightarrow> True
     | Remove r m u \<Rightarrow> True
     | MergeModules \<Rightarrow> True
     | Pull r m \<Rightarrow> True
     | ImportLayerDir d ov u \<Rightarrow> True
     | PruneRepo \<Rightarrow> True
     | _ \<Rightarrow> False)"

text \<open>
  A trace keeps the lock discipline when every call on the inventory, the layer store or
  a cache is made while the repository lock is held and the lock is released at the end. \<open>held\<close> says whether the
  lock is held before the first call.
\<close>

fun lock_discipline :: "bool \<Rightarrow> event list \<Rightarrow> bool" where
  "lock_discipline held [] = (\<not> held)"
| "lock_discipline held (LockRepo ok # es) = lock_discipline (held \<or> ok) es"
| "lock_discipline held (UnlockRepo ok # es) = lock_discipline (held \<and> \<not> ok) es"
| "lock_discipline held (e # es) = ((store_access e \<longrightarrow> held) \<and> lock_discipline held es)"

text \<open>
  A store whose only layer item is version 1.0.0 of the application, marked deleted; no
  container runs.
\<close>

definition W_orphan :: demo_world where
  "W_orphan = demo_store [demo_layer ''org.example.calc'' ''1.0.0'' ''app'' ''binary'' None True] [] []"

text \<open>The calls made between two states of the engine.\<close>

definition new_events :: "'s pm \<Rightarrow> 's pm \<Rightarrow> event list" where
  "new_events p p' = drop (length (trace p)) (trace p')"

text \<open>The state in which a call of the engine ended.\<close>

definition outcome_state :: "('a, 's) outcome \<Rightarrow> 's pm" where
  "outcome_state out = (case out of Returns a p \<Rightarrow> p | Undefined p \<Rightarrow> p | Blocked p \<Rightarrow> p)"

text \<open>Predicates on calls, used to state what a function does not do.\<close>

definition is_lock_event :: "event \<Rightarrow> bool" where
  "is_lock_event e = (case e of LockRepo ok \<Rightarrow> True | UnlockRepo ok \<Rightarrow> True | _ \<Rightarrow> False)"

text \<open>
  \<open>extends P p p'\<close>: the engine went from \<open>p\<close> to \<open>p'\<close> making only calls that satisfy \<open>P\<close>,
  and left \<^verbatim>\<open>lockFd\<close> as it was.
\<close>

definition extends :: "(event \<Rightarrow> bool) \<Rightarrow> 's pm \<Rightarrow> 's pm \<Rightarrow> bool" where
  "extends P p p' = (\<exists>new. trace p' = trace p @ new \<and> list_all P new \<and> lockFd p' = lockFd p)"

definition unlocked_event :: "event \<Rightarrow> bool" where
  "unlocked_event e = (\<not> is_lock_event e)"

text \<open>The calls of a deferred-uninstall tick other than the lock calls and the removals.\<close>

definition tick_event :: "event \<Rightarrow> bool" where
  "tick_event e =
    (case e of
       Log sev \<Rightarrow> True
     | ListLocalBy q \<Rightarrow> True
     | GetAllRunningContainers \<Rightarrow> True
     | UnexportReference r \<Rightarrow> True
     | RemoveCache r \<Rightarrow> True
     | GetLayerItem r \<Rightarrow> True
     | RemoveAll c \<Rightarrow> True
     | MergeModules \<Rightarrow> True
     | ClearReference f opts m r \<Rightarrow> True
     | ExportReference r \<Rightarrow> True
     | _ \<Rightarrow> False)"

text \<open>
  A store with version 1.0.0 of the application marked deleted and version 1.1.0
  installed, no container running; and the store once 1.0.0 is removed.
\<close>

definition W_deferred :: demo_world where
  "W_deferred = demo_store [demo_layer ''org.example.calc'' ''1.0.0'' ''app'' ''binary'' None True,
                            demo_layer ''org.example.calc'' ''1.1.0'' ''app'' ''binary'' None False] [] []"

definition W_newest :: demo_world where
  "W_newest = demo_store [demo_layer ''org.example.calc'' ''1.1.0'' ''app'' ''binary'' None False] [] []"

subsection \<open>The reconciliation of deleted items, in the words of the specification\<close>










subsection \<open>The calls of \<^verbatim>\<open>removeAfterInstall\<close>\<close>










subsection \<open>The reference counts of \<^verbatim>\<open>Prune\<close>\<close>

text \<open>A dependency string resolved locally, with no remote fallback.\<close>

definition resolve_local :: "'s env \<Rightarrow> 's \<Rightarrow> string \<Rightarrow> reference option" where
  "resolve_local env w s =
    (case x_fuzzyParse env s of
       None \<Rightarrow> None
     | Some fuzzy \<Rightarrow>
         x_clearReference env w fuzzy \<lparr>forceRemote = Some False, fallbackToRemote = Some False\<rparr> None)"


text \<open>
  The specification of \<^verbatim>\<open>Prune\<close>: an application counts for its declared runtime and its
  declared base, each resolved locally.
\<close>

definition declared_dependencies :: "'s env \<Rightarrow> 's \<Rightarrow> PackageInfoV2 \<Rightarrow> reference list" where
  "declared_dependencies env w info =
    (if info_kind info = ''app''
     then (case info_runtime info of
             None \<Rightarrow> []
           | Some s \<Rightarrow> (case resolve_local env w s of None \<Rightarrow> [] | Some r \<Rightarrow> [r]))
          @ (case resolve_local env w (info_base info) of None \<Rightarrow> [] | Some b \<Rightarrow> [b])
     else [])"


text \<open>
  What the first loop counts (lines 1968 to 2003): when the declared runtime of an
  application does not parse or resolve, the loop goes on to the next item, and the base
  of the application is not counted either.
\<close>

definition counted_dependencies :: "'s env \<Rightarrow> 's \<Rightarrow> PackageInfoV2 \<Rightarrow> reference list" where
  "counted_dependencies env w info =
    (if info_kind info = ''app''
     then (case info_runtime info of
             None \<Rightarrow> (case resolve_local env w (info_base info) of None \<Rightarrow> [] | Some b \<Rightarrow> [b])
           | Some s \<Rightarrow>
               (case resolve_local env w s of
                  None \<Rightarrow> []
                | Some r \<Rightarrow>
                    r # (case resolve_local env w (info_base info) of None \<Rightarrow> [] | Some b \<Rightarrow> [b])))
     else [])"












section \<open>Theorems\<close>

subsection \<open>Facts about the calls\<close>

lemmas calls =
  query_def mutate_def emit_def logged_def
  repo_listLocalBy_def repo_listLocal_def repo_clearReference_def repo_getModuleList_def
  repo_getRemoteModuleList_def repo_getLayerItem_def repo_getLayerDir_def repo_markDeleted_def
  repo_unexportReference_def repo_exportReference_def repo_remove_def repo_mergeModules_def
  repo_pull_def repo_importLayerDir_def repo_prune_def
  lockRepo_def unlockRepo_def unlock_finally_def getAllRunningContainers_def
  removeCache_def generateCache_def

lemmas demo =
  demo_env_def demo_store_def demo_layer_def demo_package_def demo_ref_def demo_toString_def
  demo_versionToString_def demo_versionParse_def demo_fromPackageInfo_def demo_parse_def
  demo_item_is_def demo_matches_def demo_refs_def demo_local_def demo_clearReference_def
  at_rest_def













subsection \<open>Facts about the lock and the deferred-uninstall tick\<close>

lemma extends_refl [simp]: "extends P p p"
  by (simp add: extends_def)

lemma extends_trans: "extends P p q \<Longrightarrow> extends P q r \<Longrightarrow> extends P p r"
  by (auto simp: extends_def)

lemma extends_emit: "P e \<Longrightarrow> extends P p (emit e p)"
  by (simp add: extends_def emit_def)

lemma extends_query: "P e \<Longrightarrow> extends P p (snd (query f e p))"
  by (simp add: extends_def query_def emit_def)

lemma extends_mutate: "P e \<Longrightarrow> extends P p (snd (mutate f e p))"
  by (simp add: extends_def mutate_def emit_def)

lemma extends_logged: "P (Log sev) \<Longrightarrow> extends P p (snd r) \<Longrightarrow> extends P p (logged sev r)"
  by (auto simp: logged_def intro: extends_trans extends_emit)

lemma extends_removeCache:
  assumes "P (RemoveCache r)" "P (GetLayerItem r)" "\<And>c. P (RemoveAll c)"
  shows "extends P p (snd (removeCache env r p))"
  using assms
  by (auto simp: removeCache_def repo_getLayerItem_def query_def mutate_def emit_def extends_def
      split: option.splits)

lemma lockRepo_cases:
  "lockRepo env p = (ok, p1) \<Longrightarrow>
   trace p1 = trace p @ [LockRepo ok] \<and> world p1 = world p \<and> (ok \<longrightarrow> lockFd p1 \<noteq> - 1)"
  by (auto simp: lockRepo_def emit_def Let_def split: if_splits)

lemma unlock_finally_trace:
  assumes "lockFd p \<noteq> - 1" "x_fcntl_unlock env (world p) (lockFd p)"
  shows "trace (unlock_finally env p) = trace p @ [UnlockRepo True]"
  using assms by (simp add: unlock_finally_def unlockRepo_def logged_def emit_def)

lemma uninstall_items_extends:
  assumes "\<And>e. tick_event e \<Longrightarrow> P e" "\<And>m u. P (Remove r m u)"
  shows "extends P p (uninstall_items env r items p)"
proof (induction items arbitrary: p)
  case Nil
  then show ?case by simp
next
  case (Cons item items)
  let ?m = "packageInfoV2Module (item_info item)"
  let ?p1 = "if ?m = ''binary'' \<or> ?m = ''runtime'' then logged Critical (removeCache env r p) else p"
  let ?p2 = "logged Critical (repo_remove env r ?m (info_uuid (item_info item)) ?p1)"
  have 1: "extends P p ?p1"
    using assms(1) by (auto simp: tick_event_def intro!: extends_logged extends_removeCache)
  have 2: "extends P ?p1 ?p2"
    using assms by (auto simp: repo_remove_def tick_event_def intro!: extends_logged extends_mutate)
  have "extends P ?p2 (uninstall_items env r items ?p2)" by (rule Cons.IH)
  with 1 2 have "extends P p (uninstall_items env r items ?p2)"
    by (blast intro: extends_trans)
  then show ?case by (simp add: Let_def)
qed

lemma uninstall_groups_extends:
  assumes tick: "\<And>e. tick_event e \<Longrightarrow> P e"
    and removes: "\<And>key r m u. key \<in> fst ` set groups \<Longrightarrow> x_parse env key = Some r \<Longrightarrow> P (Remove r m u)"
  shows "extends P p (outcome_state (uninstall_groups env groups p))"
  using removes
proof (induction groups arbitrary: p)
  case Nil
  then show ?case by (simp add: outcome_state_def)
next
  case (Cons g groups)
  obtain key items where g: "g = (key, items)" by (cases g)
  have log: "\<And>q. extends P q (emit (Log Critical) q)"
    by (rule extends_emit, rule tick) (simp add: tick_event_def)
  show ?case
  proof (cases "x_parse env key")
    case None
    then show ?thesis
      by (simp add: g outcome_state_def log)
  next
    case (Some pkgRef)
    let ?p1 = "repo_unexportReference env pkgRef p"
    let ?p2 = "uninstall_items env pkgRef items ?p1"
    let ?p3 = "logged Critical (repo_mergeModules env ?p2)"
    have "P (UnexportReference pkgRef)" by (rule tick) (simp add: tick_event_def)
    then have 1: "extends P p ?p1"
      by (simp add: repo_unexportReference_def extends_def emit_def)
    have 2: "extends P ?p1 ?p2"
      by (rule uninstall_items_extends [OF tick]) (auto intro: Cons.prems simp: g Some)
    have 3: "extends P ?p2 ?p3"
      by (auto simp: repo_mergeModules_def tick_event_def intro!: extends_logged extends_mutate tick)
    have p3: "extends P p ?p3"
      using 1 2 3 by (blast intro: extends_trans)
    show ?thesis
    proof (cases "x_fuzzyCreate env (Some (channel pkgRef)) (id_ref pkgRef) None (Some (arch pkgRef))")
      case None
      from p3 log have "extends P p (emit (Log Critical) ?p3)"
        by (blast intro: extends_trans)
      then show ?thesis using Some None by (simp add: g outcome_state_def Let_def)
    next
      case fz: (Some fuzzy)
      let ?q = "repo_clearReference env fuzzy \<lparr>forceRemote = None, fallbackToRemote = Some False\<rparr> None ?p3"
      have 4: "extends P ?p3 (snd ?q)"
        by (auto simp: repo_clearReference_def tick_event_def intro!: extends_query tick)
      show ?thesis
      proof (cases "fst ?q")
        case None
        from p3 4 log have "extends P p (emit (Log Critical) (snd ?q))"
          by (blast intro: extends_trans)
        then show ?thesis using Some fz None
          by (simp add: g outcome_state_def Let_def case_prod_beta)
      next
        case latest: (Some latestRef)
        let ?p5 = "repo_exportReference env latestRef (snd ?q)"
        have "P (ExportReference latestRef)" by (rule tick) (simp add: tick_event_def)
        then have 5: "extends P (snd ?q) ?p5"
          by (simp add: repo_exportReference_def extends_def emit_def)
        have "extends P ?p5 (outcome_state (uninstall_groups env groups ?p5))"
          by (rule Cons.IH) (rule Cons.prems, simp_all)
        with p3 4 5 have "extends P p (outcome_state (uninstall_groups env groups ?p5))"
          by (blast intro: extends_trans)
        then show ?thesis using Some fz latest
          by (simp add: g Let_def case_prod_beta)
      qed
    qed
  qed
qed

lemma deferredUninstall_locked_extends:
  assumes tick: "\<And>e. tick_event e \<Longrightarrow> P e"
    and removes: "\<And>uninstalled groups containers key r m u.
       x_listLocalBy env (world p)
         \<lparr>query_id = None, query_channel = None, query_version = None, query_deleted = Some True\<rparr>
         = Some uninstalled \<Longrightarrow>
       group_uninstalled env uninstalled [] = Some groups \<Longrightarrow>
       x_getAllRunningContainers env (world p) = Some containers \<Longrightarrow>
       key \<in> fst ` set (erase_running containers groups) \<Longrightarrow> x_parse env key = Some r \<Longrightarrow>
       P (Remove r m u)"
  shows "extends P p (outcome_state (deferredUninstall_locked env p))"
proof -
  have e: "\<And>e q. tick_event e \<Longrightarrow> extends P p q \<Longrightarrow> extends P p (emit e q)"
    by (blast intro: extends_trans extends_emit tick)
  have l: "tick_event (Log Critical)"
    by (simp add: tick_event_def)
  let ?q = "\<lparr>query_id = None, query_channel = None, query_version = None, query_deleted = Some True\<rparr>"
  let ?p1 = "emit (ListLocalBy ?q) p"
  let ?p2 = "emit GetAllRunningContainers ?p1"
  have 1: "extends P p ?p1"
    by (rule e) (simp_all add: tick_event_def)
  have 2: "extends P p ?p2"
    using 1 by (rule e [rotated]) (simp add: tick_event_def)
  have g: "extends P p (outcome_state (uninstall_groups env (erase_running containers groups) ?p2))"
    if "x_listLocalBy env (world p) ?q = Some uninstalled"
      "group_uninstalled env uninstalled [] = Some groups"
      "x_getAllRunningContainers env (world p) = Some containers"
    for uninstalled groups containers
    using 2 uninstall_groups_extends [of P "erase_running containers groups" env ?p2, OF tick]
      removes [OF that]
    by (blast intro: extends_trans)
  show ?thesis
    using 1 2 g e [OF l 1] e [OF l 2]
    by (auto simp: deferredUninstall_locked_def repo_listLocalBy_def getAllRunningContainers_def
        query_def emit_def outcome_state_def Let_def split: option.splits)
qed

lemma deferredUninstall_locked_unlocked:
  "extends unlocked_event p (outcome_state (deferredUninstall_locked env p))"
  by (rule deferredUninstall_locked_extends)
    (auto simp: unlocked_event_def is_lock_event_def tick_event_def split: event.splits)

lemma try_emplace_push_back_keys:
  "fst ` set (try_emplace_push_back key item groups) = insert key (fst ` set groups)"
proof (induction groups)
  case Nil
  show ?case by simp
next
  case (Cons g groups)
  obtain k items where g: "g = (k, items)" by (cases g)
  show ?case
    using Cons.IH by (cases "k = key") (simp_all add: g insert_commute)
qed

lemma group_uninstalled_keys:
  "group_uninstalled env items groups = Some groups' \<Longrightarrow>
   fst ` set groups' \<subseteq> fst ` set groups \<union> range (x_toString env)"
proof (induction items arbitrary: groups)
  case Nil
  then show ?case by auto
next
  case (Cons item items)
  then obtain r where r: "x_fromPackageInfo env (item_info item) = Some r"
    and rec: "group_uninstalled env items (try_emplace_push_back (x_toString env r) item groups) = Some groups'"
    by (auto split: option.splits)
  from Cons.IH [OF rec] show ?case
    by (auto simp: try_emplace_push_back_keys)
qed

lemma erase_running_keys:
  "fst ` set (erase_running containers groups) = fst ` set groups - app ` set containers"
proof (induction containers arbitrary: groups)
  case Nil
  then show ?case by (simp add: erase_running_def)
next
  case (Cons c containers)
  have "erase_running (c # containers) groups = erase_running containers (erase_key (app c) groups)"
    by (simp add: erase_running_def)
  moreover have "fst ` set (erase_key (app c) groups) = fst ` set groups - {app c}"
    by (auto simp: erase_key_def)
  ultimately show ?case using Cons.IH [of "erase_key (app c) groups"] by auto
qed

lemma deferredUninstall_spares_running:
  assumes roundtrip: "\<And>r. x_parse env (x_toString env r) = Some r"
    and inventory: "x_getAllRunningContainers env (world p) = Some containers"
    and busy: "list_ex (\<lambda>container. app container = x_toString env ref) containers"
  shows "\<forall>module subRef.
           Remove ref module subRef \<notin> set (new_events p (outcome_state (deferredUninstall env p)))"
proof -
  let ?P = "\<lambda>e. \<forall>module subRef. e \<noteq> Remove ref module subRef"
  obtain ok p1 where lock: "lockRepo env p = (ok, p1)" by (cases "lockRepo env p")
  note l = lockRepo_cases [OF lock]
  have body: "extends ?P p1 (outcome_state (deferredUninstall_locked env p1))"
  proof (rule deferredUninstall_locked_extends)
    fix e :: event assume "tick_event e"
    then show "\<forall>module subRef. e \<noteq> Remove ref module subRef"
      by (auto simp: tick_event_def)
  next
    fix uninstalled groups containers' key r m u
    assume groups: "group_uninstalled env uninstalled [] = Some groups"
      and run': "x_getAllRunningContainers env (world p1) = Some containers'"
      and key: "key \<in> fst ` set (erase_running containers' groups)"
      and parse: "x_parse env key = Some r"
    from run' inventory l have same: "containers' = containers" by simp
    from key have k1: "key \<in> fst ` set groups" and k2: "key \<notin> app ` set containers"
      by (auto simp: erase_running_keys same)
    from group_uninstalled_keys [OF groups] k1 obtain r' where "key = x_toString env r'" by auto
    with parse roundtrip have "key = x_toString env r" by simp
    moreover from busy have "x_toString env ref \<in> app ` set containers"
      by (force simp: list_ex_iff)
    ultimately have "r \<noteq> ref" using k2 by auto
    then show "\<forall>module subRef. Remove r m u \<noteq> Remove ref module subRef" by simp
  qed
  then obtain new where new:
    "trace (outcome_state (deferredUninstall_locked env p1)) = trace p1 @ new" "list_all ?P new"
    by (auto simp: extends_def)
  have unlock: "\<And>q. \<exists>tail. trace (unlock_finally env q) = trace q @ tail \<and> list_all ?P tail"
    by (auto simp: unlock_finally_def unlockRepo_def logged_def emit_def)
  show ?thesis
  proof (cases ok)
    case False
    with lock l show ?thesis
      by (auto simp: deferredUninstall_def new_events_def outcome_state_def emit_def)
  next
    case True
    show ?thesis
    proof (cases "deferredUninstall_locked env p1")
      case (Returns u p2)
      from unlock [of p2] obtain tail where
        tail: "trace (unlock_finally env p2) = trace p2 @ tail" "list_all ?P tail" by blast
      have "new_events p (outcome_state (deferredUninstall env p)) = LockRepo True # new @ tail"
        using lock True Returns new(1) tail(1) l
        by (simp add: deferredUninstall_def new_events_def outcome_state_def)
      then show ?thesis using new(2) tail(2) by (auto simp: list_all_iff)
    next
      case (Undefined p2)
      have "new_events p (outcome_state (deferredUninstall env p)) = LockRepo True # new"
        using lock True Undefined new(1) l
        by (simp add: deferredUninstall_def new_events_def outcome_state_def)
      then show ?thesis using new(2) by (auto simp: list_all_iff)
    next
      case (Blocked p2)
      have "new_events p (outcome_state (deferredUninstall env p)) = LockRepo True # new"
        using lock True Blocked new(1) l
        by (simp add: deferredUninstall_def new_events_def outcome_state_def)
      then show ?thesis using new(2) by (auto simp: list_all_iff)
    qed
  qed
qed

lemma lock_discipline_held_append:
  "list_all unlocked_event new \<Longrightarrow> lock_discipline True (new @ rest) = lock_discipline True rest"
proof (induction new)
  case Nil
  then show ?case by simp
next
  case (Cons e new)
  then show ?case by (cases e) (simp_all add: unlocked_event_def is_lock_event_def)
qed

subsection \<open>Two deferred-uninstall ticks, call by call\<close>

lemma orphan_mergeModules:
  "logged Critical (repo_mergeModules demo_env \<lparr>world = demo_store [] [] [], trace = tr, lockFd = 3\<rparr>)
   = \<lparr>world = demo_store [] [] [], trace = tr @ [MergeModules], lockFd = 3\<rparr>"
  by (simp add: calls demo)

lemma calc_fuzzyCreate:
  "x_fuzzyCreate demo_env (Some ''stable'') ''org.example.calc'' None (Some ''x86_64'')
   = Some \<lparr>fuzzy_channel = Some ''stable'', fuzzy_id = ''org.example.calc'',
                         fuzzy_version = None, fuzzy_arch = Some ''x86_64''\<rparr>"
  by (simp add: demo)

lemma orphan_clearReference:
  "repo_clearReference demo_env \<lparr>fuzzy_channel = Some ''stable'', fuzzy_id = ''org.example.calc'',
                         fuzzy_version = None, fuzzy_arch = Some ''x86_64''\<rparr>
      \<lparr>forceRemote = None, fallbackToRemote = Some False\<rparr> None
      \<lparr>world = demo_store [] [] [], trace = tr, lockFd = 3\<rparr>
   = (None, \<lparr>world = demo_store [] [] [], trace = tr @ [ClearReference
                        \<lparr>fuzzy_channel = Some ''stable'', fuzzy_id = ''org.example.calc'',
                         fuzzy_version = None, fuzzy_arch = Some ''x86_64''\<rparr>
                        \<lparr>forceRemote = None, fallbackToRemote = Some False\<rparr> None None], lockFd = 3\<rparr>)"
  by (simp add: calls demo)

lemma orphan_items:
  "uninstall_items demo_env (demo_ref ''org.example.calc'' [1, 0, 0])
     [fst (demo_layer ''org.example.calc'' ''1.0.0'' ''app'' ''binary'' None True)]
     \<lparr>world = W_orphan, trace = tr, lockFd = 3\<rparr>
   = \<lparr>world = demo_store [] [] [],
      trace = tr @ [RemoveCache (demo_ref ''org.example.calc'' [1, 0, 0]),
                    GetLayerItem (demo_ref ''org.example.calc'' [1, 0, 0]),
                    RemoveAll ''org.example.calc-1.0.0'',
                    Remove (demo_ref ''org.example.calc'' [1, 0, 0]) ''binary'' None],
      lockFd = 3\<rparr>"
  by (simp add: calls demo W_orphan_def)

lemma orphan_groups:
  "uninstall_groups demo_env
     [(''stable:org.example.calc/1.0.0/x86_64'',
       [fst (demo_layer ''org.example.calc'' ''1.0.0'' ''app'' ''binary'' None True)])]
     \<lparr>world = W_orphan, trace = tr, lockFd = 3\<rparr>
   = Undefined
       \<lparr>world = demo_store [] [] [],
        trace = tr @ [UnexportReference (demo_ref ''org.example.calc'' [1, 0, 0]),
                      RemoveCache (demo_ref ''org.example.calc'' [1, 0, 0]),
                      GetLayerItem (demo_ref ''org.example.calc'' [1, 0, 0]),
                      RemoveAll ''org.example.calc-1.0.0'',
                      Remove (demo_ref ''org.example.calc'' [1, 0, 0]) ''binary'' None,
                      MergeModules,
                      ClearReference
                        \<lparr>fuzzy_channel = Some ''stable'', fuzzy_id = ''org.example.calc'',
                         fuzzy_version = None, fuzzy_arch = Some ''x86_64''\<rparr>
                        \<lparr>forceRemote = None, fallbackToRemote = Some False\<rparr> None None,
                      Log Critical],
        lockFd = 3\<rparr>"
proof -
  have parse: "x_parse demo_env ''stable:org.example.calc/1.0.0/x86_64''
               = Some (demo_ref ''org.example.calc'' [1, 0, 0])"
    by (simp add: demo)
  have unexport: "repo_unexportReference demo_env (demo_ref ''org.example.calc'' [1, 0, 0])
                    \<lparr>world = W_orphan, trace = tr, lockFd = 3\<rparr>
                  = \<lparr>world = W_orphan,
                     trace = tr @ [UnexportReference (demo_ref ''org.example.calc'' [1, 0, 0])],
                     lockFd = 3\<rparr>"
    by (simp add: calls demo W_orphan_def)
  have fields: "channel (demo_ref ''org.example.calc'' [1, 0, 0]) = ''stable''"
      "id_ref (demo_ref ''org.example.calc'' [1, 0, 0]) = ''org.example.calc''"
      "arch (demo_ref ''org.example.calc'' [1, 0, 0]) = ''x86_64''"
    by (simp_all add: demo_ref_def)
  show ?thesis
    by (simp add: parse unexport orphan_items orphan_mergeModules calc_fuzzyCreate orphan_clearReference fields emit_def
        del: One_nat_def uninstall_items.simps)
qed

lemma deferred_items:
  "uninstall_items demo_env (demo_ref ''org.example.calc'' [1, 0, 0])
     [fst (demo_layer ''org.example.calc'' ''1.0.0'' ''app'' ''binary'' None True)]
     \<lparr>world = W_deferred, trace = tr, lockFd = 3\<rparr>
   = \<lparr>world = W_newest,
      trace = tr @ [RemoveCache (demo_ref ''org.example.calc'' [1, 0, 0]),
                    GetLayerItem (demo_ref ''org.example.calc'' [1, 0, 0]),
                    RemoveAll ''org.example.calc-1.0.0'',
                    Remove (demo_ref ''org.example.calc'' [1, 0, 0]) ''binary'' None],
      lockFd = 3\<rparr>"
  by (simp add: calls demo W_deferred_def W_newest_def Let_def)

lemma deferred_mergeModules:
  "logged Critical (repo_mergeModules demo_env \<lparr>world = W_newest, trace = tr, lockFd = 3\<rparr>)
   = \<lparr>world = W_newest, trace = tr @ [MergeModules], lockFd = 3\<rparr>"
  by (simp add: calls demo)

lemma deferred_clearReference:
  "repo_clearReference demo_env
      \<lparr>fuzzy_channel = Some ''stable'', fuzzy_id = ''org.example.calc'',
       fuzzy_version = None, fuzzy_arch = Some ''x86_64''\<rparr>
      \<lparr>forceRemote = None, fallbackToRemote = Some False\<rparr> None
      \<lparr>world = W_newest, trace = tr, lockFd = 3\<rparr>
   = (Some (demo_ref ''org.example.calc'' [1, 1, 0]),
      \<lparr>world = W_newest,
       trace = tr @ [ClearReference
                       \<lparr>fuzzy_channel = Some ''stable'', fuzzy_id = ''org.example.calc'',
                        fuzzy_version = None, fuzzy_arch = Some ''x86_64''\<rparr>
                       \<lparr>forceRemote = None, fallbackToRemote = Some False\<rparr> None
                       (Some (demo_ref ''org.example.calc'' [1, 1, 0]))],
       lockFd = 3\<rparr>)"
  by (simp add: calls demo W_newest_def)

lemma deferred_exportReference:
  "repo_exportReference demo_env (demo_ref ''org.example.calc'' [1, 1, 0])
      \<lparr>world = W_newest, trace = tr, lockFd = 3\<rparr>
   = \<lparr>world = W_newest\<lparr>exported_refs := [demo_ref ''org.example.calc'' [1, 1, 0]]\<rparr>,
      trace = tr @ [ExportReference (demo_ref ''org.example.calc'' [1, 1, 0])],
      lockFd = 3\<rparr>"
  by (simp add: calls demo W_newest_def)

lemma deferred_groups:
  "uninstall_groups demo_env
     [(''stable:org.example.calc/1.0.0/x86_64'',
       [fst (demo_layer ''org.example.calc'' ''1.0.0'' ''app'' ''binary'' None True)])]
     \<lparr>world = W_deferred, trace = tr, lockFd = 3\<rparr>
   = Returns ()
       \<lparr>world = W_newest\<lparr>exported_refs := [demo_ref ''org.example.calc'' [1, 1, 0]]\<rparr>,
        trace = tr @ [UnexportReference (demo_ref ''org.example.calc'' [1, 0, 0]),
                      RemoveCache (demo_ref ''org.example.calc'' [1, 0, 0]),
                      GetLayerItem (demo_ref ''org.example.calc'' [1, 0, 0]),
                      RemoveAll ''org.example.calc-1.0.0'',
                      Remove (demo_ref ''org.example.calc'' [1, 0, 0]) ''binary'' None,
                      MergeModules,
                      ClearReference
                        \<lparr>fuzzy_channel = Some ''stable'', fuzzy_id = ''org.example.calc'',
                         fuzzy_version = None, fuzzy_arch = Some ''x86_64''\<rparr>
                        \<lparr>forceRemote = None, fallbackToRemote = Some False\<rparr> None
                        (Some (demo_ref ''org.example.calc'' [1, 1, 0])),
                      ExportReference (demo_ref ''org.example.calc'' [1, 1, 0])],
        lockFd = 3\<rparr>"
proof -
  have parse: "x_parse demo_env ''stable:org.example.calc/1.0.0/x86_64''
               = Some (demo_ref ''org.example.calc'' [1, 0, 0])"
    by (simp add: demo)
  have unexport: "repo_unexportReference demo_env (demo_ref ''org.example.calc'' [1, 0, 0])
                    \<lparr>world = W_deferred, trace = tr, lockFd = 3\<rparr>
                  = \<lparr>world = W_deferred,
                     trace = tr @ [UnexportReference (demo_ref ''org.example.calc'' [1, 0, 0])],
                     lockFd = 3\<rparr>"
    by (simp add: calls demo W_deferred_def)
  have fields: "channel (demo_ref ''org.example.calc'' [1, 0, 0]) = ''stable''"
      "id_ref (demo_ref ''org.example.calc'' [1, 0, 0]) = ''org.example.calc''"
      "arch (demo_ref ''org.example.calc'' [1, 0, 0]) = ''x86_64''"
    by (simp_all add: demo_ref_def)
  show ?thesis
    by (simp add: parse unexport deferred_items deferred_mergeModules calc_fuzzyCreate
        deferred_clearReference deferred_exportReference fields
        del: One_nat_def uninstall_items.simps)
qed

lemma deferredUninstall_deferred:
  "deferredUninstall demo_env (at_rest W_deferred)
     = Returns ()
         \<lparr>world = W_newest\<lparr>exported_refs := [demo_ref ''org.example.calc'' [1, 1, 0]]\<rparr>,
          trace =
            [LockRepo True,
             ListLocalBy \<lparr>query_id = None, query_channel = None, query_version = None,
                          query_deleted = Some True\<rparr>,
             GetAllRunningContainers,
             UnexportReference (demo_ref ''org.example.calc'' [1, 0, 0]),
             RemoveCache (demo_ref ''org.example.calc'' [1, 0, 0]),
             GetLayerItem (demo_ref ''org.example.calc'' [1, 0, 0]),
             RemoveAll ''org.example.calc-1.0.0'',
             Remove (demo_ref ''org.example.calc'' [1, 0, 0]) ''binary'' None,
             MergeModules,
             ClearReference
               \<lparr>fuzzy_channel = Some ''stable'', fuzzy_id = ''org.example.calc'',
                fuzzy_version = None, fuzzy_arch = Some ''x86_64''\<rparr>
               \<lparr>forceRemote = None, fallbackToRemote = Some False\<rparr> None
               (Some (demo_ref ''org.example.calc'' [1, 1, 0])),
             ExportReference (demo_ref ''org.example.calc'' [1, 1, 0]),
             UnlockRepo True],
          lockFd = - 1\<rparr>"
proof -
  have lock: "lockRepo demo_env (at_rest W_deferred)
              = (True, \<lparr>world = W_deferred, trace = [LockRepo True], lockFd = 3\<rparr>)"
    by (simp add: calls demo W_deferred_def)
  have listed: "x_listLocalBy demo_env W_deferred
                  \<lparr>query_id = None, query_channel = None, query_version = None, query_deleted = Some True\<rparr>
                = Some [fst (demo_layer ''org.example.calc'' ''1.0.0'' ''app'' ''binary'' None True)]"
    by (simp add: demo W_deferred_def)
  have grouped: "group_uninstalled demo_env
                   [fst (demo_layer ''org.example.calc'' ''1.0.0'' ''app'' ''binary'' None True)] []
                 = Some [(''stable:org.example.calc/1.0.0/x86_64'',
                          [fst (demo_layer ''org.example.calc'' ''1.0.0'' ''app'' ''binary'' None True)])]"
    by (simp add: demo)
  have inventory: "x_getAllRunningContainers demo_env W_deferred = Some []"
    by (simp add: demo W_deferred_def)
  have body: "deferredUninstall_locked demo_env \<lparr>world = W_deferred, trace = [LockRepo True], lockFd = 3\<rparr>
              = uninstall_groups demo_env
                  [(''stable:org.example.calc/1.0.0/x86_64'',
                    [fst (demo_layer ''org.example.calc'' ''1.0.0'' ''app'' ''binary'' None True)])]
                  \<lparr>world = W_deferred,
                   trace = [LockRepo True,
                            ListLocalBy \<lparr>query_id = None, query_channel = None, query_version = None,
                                         query_deleted = Some True\<rparr>,
                            GetAllRunningContainers],
                   lockFd = 3\<rparr>"
    by (simp add: deferredUninstall_locked_def repo_listLocalBy_def getAllRunningContainers_def
        query_def emit_def listed grouped inventory erase_running_def
        del: One_nat_def group_uninstalled.simps uninstall_groups.simps)
  have unlock: "unlock_finally demo_env \<lparr>world = w, trace = tr, lockFd = 3\<rparr>
                = \<lparr>world = w, trace = tr @ [UnlockRepo True], lockFd = - 1\<rparr>" for w tr
    by (simp add: calls demo)
  show ?thesis
    by (simp add: deferredUninstall_def lock body deferred_groups unlock
        del: One_nat_def uninstall_groups.simps)
qed

subsection \<open>Facts about \<^verbatim>\<open>InstallRef\<close>\<close>




lemma isTaskDone_Failed [simp]: "isTaskDone (subState (updateState Failed t))"
  by (simp add: updateState_def isTaskDone_def)






lemma isTaskDone_updateSubState:
  "\<not> isTaskDone (subState (updateSubState s t)) \<Longrightarrow> \<not> isTaskDone (subState t)"
  by (auto simp: updateSubState_def)










subsection \<open>The entry point \<^verbatim>\<open>Install\<close> makes no lock call\<close>

lemma enqueue_unlocked: "extends unlocked_event p (snd (enqueue env refSpecs installer message p))"
  by (auto simp: enqueue_def mutate_def emit_def extends_def unlocked_event_def is_lock_event_def
      split: option.splits prod.splits)

lemma clearReference_unlocked:
  "repo_clearReference env fuzzy opts module p = (r, p') \<Longrightarrow> extends unlocked_event p p'"
  by (auto simp: repo_clearReference_def query_def emit_def extends_def unlocked_event_def
      is_lock_event_def)

lemma Install_classify_unlocked:
  "extends unlocked_event p (snd (Install_classify env paras curModule localRef remoteRef p))"
  by (auto simp: Install_classify_def Let_def enqueue_unlocked split: option.splits)

lemma extends_then: "extends P p q \<Longrightarrow> (\<And>q. extends P q (snd (f q))) \<Longrightarrow> extends P p (snd (f q))"
  by (blast intro: extends_trans)

lemma Install_unlocked: "extends unlocked_event p (snd (Install env parameters p))"
proof (cases parameters)
  case None
  then show ?thesis by (simp add: Install_def)
next
  case (Some paras)
  show ?thesis
  proof (cases "fuzzyReferenceFromPackage env (package paras)")
    case None
    with Some show ?thesis by (simp add: Install_def)
  next
    case fuzzy: (Some fuzzyRef)
    define curModule where "curModule = (case packageManager1PackageModule (package paras) of
                                  None \<Rightarrow> ''binary'' | Some m \<Rightarrow> m)"
    show ?thesis
    proof (cases "curModule \<noteq> ''binary''")
      case True
      with Some fuzzy show ?thesis
        by (simp add: Install_def Let_def curModule_def [symmetric] enqueue_unlocked)
    next
      case False
      obtain found p1 where first:
        "(if fuzzy_version fuzzyRef \<noteq> None
          then repo_clearReference env fuzzyRef \<lparr>forceRemote = None, fallbackToRemote = Some False\<rparr> None p
          else (None, p)) = (found, p1)"
        by (metis surj_pair)
      have e1: "extends unlocked_event p p1"
        using first by (auto split: if_splits dest: clearReference_unlocked)
      show ?thesis
      proof (cases found)
        case (Some ref)
        with \<open>parameters = Some paras\<close> fuzzy False first e1 show ?thesis
          by (simp add: Install_def Let_def curModule_def [symmetric])
      next
        case None
        obtain localRef p2 where second:
          "repo_clearReference env (fuzzyRef\<lparr>fuzzy_version := None\<rparr>)
             \<lparr>forceRemote = None, fallbackToRemote = Some False\<rparr> None p1 = (localRef, p2)"
          by (metis surj_pair)
        obtain remote p3 where third:
          "repo_clearReference env fuzzyRef \<lparr>forceRemote = Some True, fallbackToRemote = None\<rparr>
             (Some curModule) p2 = (remote, p3)"
          by (metis surj_pair)
        have e3: "extends unlocked_event p p3"
          using e1 clearReference_unlocked [OF second] clearReference_unlocked [OF third]
          by (blast intro: extends_trans)
        show ?thesis
        proof (cases remote)
          case None
          with \<open>parameters = Some paras\<close> fuzzy False first \<open>found = None\<close> second third e3 show ?thesis
            by (simp add: Install_def Let_def curModule_def [symmetric])
        next
          case (Some remoteRef)
          have "extends unlocked_event p (snd (Install_classify env paras curModule localRef remoteRef p3))"
            using e3 Install_classify_unlocked by (blast intro: extends_trans)
          with \<open>parameters = Some paras\<close> fuzzy False first \<open>found = None\<close> second third Some show ?thesis
            by (simp add: Install_def Let_def curModule_def [symmetric])
        qed
      qed
    qed
  qed
qed

lemma unlocked_discipline:
  "list_all unlocked_event evs \<Longrightarrow>
   lock_discipline False evs = list_all (\<lambda>e. \<not> store_access e) evs"
  by (induction evs) (auto simp: unlocked_event_def is_lock_event_def split: event.splits)

subsection \<open>Facts about \<^verbatim>\<open>Prune\<close>\<close>













lemma count_dependencies_world:
  "world (snd (count_dependencies env infos target p)) = world p"
  by (induction infos arbitrary: target p)
    (auto simp: repo_clearReference_def query_def emit_def split: option.splits prod.splits)











lemma counted_is_declared:
  "info_runtime info = None \<or> (\<exists>s r. info_runtime info = Some s \<and> resolve_local env w s = Some r) \<Longrightarrow>
   counted_dependencies env w info = declared_dependencies env w info"
  by (auto simp: counted_dependencies_def declared_dependencies_def split: option.splits)









lemma Prune_empty_store:
  "Prune demo_env [] (at_rest (demo_store [] [] []))
   = ((True, []), \<lparr>world = demo_store [] [] [], trace = [ListLocal, PruneRepo], lockFd = - 1\<rparr>)"
  by (simp add: Prune_def calls demo)


subsection \<open>The claims\<close>



text \<open>
  C3. A remote install of the \<open>binary\<close> module that reaches the classification (the
  parameters parse, a requested version is not installed, the remote resolves) while a
  local reference with the same id exists. Equal versions: the request fails at once with
  the "already installed" error, after the lookups only, so no task is created. Remote
  version greater: the task is queued with a plan of type \<open>Upgrade\<close>. Remote version less:
  without \<open>force\<close> the request fails at once, no task is created; with \<open>force\<close> the task is
  queued with a plan of type \<open>Install\<close>.
\<close>

theorem Install_classification:
  assumes fuzzy: "fuzzyReferenceFromPackage env (package paras) = Some fuzzyRef"
    and binary: "packageManager1PackageModule (package paras) = None
                 \<or> packageManager1PackageModule (package paras) = Some ''binary''"
    and fresh: "fuzzy_version fuzzyRef = None
                \<or> x_clearReference env (world p) fuzzyRef
                     \<lparr>forceRemote = None, fallbackToRemote = Some False\<rparr> None = None"
    and local: "x_clearReference env (world p) (fuzzyRef\<lparr>fuzzy_version := None\<rparr>)
                  \<lparr>forceRemote = None, fallbackToRemote = Some False\<rparr> None = Some localRef"
    and name: "x_toString env localRef \<noteq> []"
    and remote: "x_clearReference env (world p) fuzzyRef
                   \<lparr>forceRemote = Some True, fallbackToRemote = None\<rparr> (Some ''binary'') = Some remoteRef"
  shows "(version remoteRef = version localRef \<longrightarrow>
            Install env (Some paras) p
              = ((CommonResult (- 1) (x_toString env localRef @ '' is already installed'') ''display'', None),
                 p\<lparr>trace := trace p @ Install_lookups fuzzyRef localRef remoteRef\<rparr>))
       \<and> (version localRef < version remoteRef \<longrightarrow>
            Install env (Some paras) p
              = enqueue env [refSpec (x_defaultRepo env (world p)) remoteRef ''binary'']
                  (RemotePlan remoteRef (Some localRef) ''binary'' (skipInteraction (options paras)) Upgrade_msg
                     \<lparr>localRef_msg = x_toString env localRef, remoteRef_msg = x_toString env remoteRef\<rparr>)
                  (x_toString env remoteRef @ '' is now installing'')
                  (p\<lparr>trace := trace p @ Install_lookups fuzzyRef localRef remoteRef\<rparr>))
       \<and> (version remoteRef < version localRef \<and> \<not> force (options paras) \<longrightarrow>
            Install env (Some paras) p
              = ((CommonResult (- 1)
                    (downgrade_message (id_ref remoteRef @ ''/'' @ x_versionToString env (version remoteRef)))
                    ''display'', None),
                 p\<lparr>trace := trace p @ Install_lookups fuzzyRef localRef remoteRef\<rparr>))
       \<and> (version remoteRef < version localRef \<and> force (options paras) \<longrightarrow>
            Install env (Some paras) p
              = enqueue env [refSpec (x_defaultRepo env (world p)) remoteRef ''binary'']
                  (RemotePlan remoteRef (Some localRef) ''binary'' (skipInteraction (options paras)) Install_msg
                     \<lparr>localRef_msg = x_toString env localRef, remoteRef_msg = x_toString env remoteRef\<rparr>)
                  (x_toString env remoteRef @ '' is now installing'')
                  (p\<lparr>trace := trace p @ Install_lookups fuzzyRef localRef remoteRef\<rparr>))"
proof -
  have module: "(case packageManager1PackageModule (package paras) of None \<Rightarrow> ''binary'' | Some m \<Rightarrow> m) = ''binary''"
    using binary by auto
  show ?thesis
    using fuzzy fresh local name remote module
    by (auto simp: Install_def Install_classify_def Install_lookups_def Let_def
        repo_clearReference_def query_def emit_def
        split: prod.splits option.splits)
qed

theorem Install_classification_witness:
  "version (demo_ref ''org.example.calc'' [1, 0, 0]) < version (demo_ref ''org.example.calc'' [1, 1, 0])
   \<and> fst (Install demo_env (Some calc_request) (at_rest W3))
     = (PackageTaskResult ''/org/deepin/linglong/Task1'' 0
          ''stable:org.example.calc/1.1.0/x86_64 is now installing'',
        Some (RemotePlan (demo_ref ''org.example.calc'' [1, 1, 0])
                (Some (demo_ref ''org.example.calc'' [1, 0, 0])) ''binary'' False Upgrade_msg
                \<lparr>localRef_msg = ''stable:org.example.calc/1.0.0/x86_64'',
                 remoteRef_msg = ''stable:org.example.calc/1.1.0/x86_64''\<rparr>,
              \<lparr>state = Queued, subState = PreAction\<rparr>))"
proof -
  let ?fuzzy = "\<lparr>fuzzy_channel = None, fuzzy_id = ''org.example.calc'',
                  fuzzy_version = None, fuzzy_arch = None\<rparr>"
  let ?old = "demo_ref ''org.example.calc'' [1, 0, 0]"
  let ?new = "demo_ref ''org.example.calc'' [1, 1, 0]"
  have f: "fuzzyReferenceFromPackage demo_env (package calc_request) = Some ?fuzzy"
    by (simp add: fuzzyReferenceFromPackage_def calc_request_def demo)
  have b: "packageManager1PackageModule (package calc_request) = None
           \<or> packageManager1PackageModule (package calc_request) = Some ''binary''"
    by (simp add: calc_request_def)
  have fr: "fuzzy_version ?fuzzy = None
            \<or> x_clearReference demo_env (world (at_rest W3)) ?fuzzy
                 \<lparr>forceRemote = None, fallbackToRemote = Some False\<rparr> None = None"
    by simp
  have l: "x_clearReference demo_env (world (at_rest W3)) (?fuzzy\<lparr>fuzzy_version := None\<rparr>)
             \<lparr>forceRemote = None, fallbackToRemote = Some False\<rparr> None = Some ?old"
    by (simp add: demo W3_def)
  have n: "x_toString demo_env ?old \<noteq> []"
    by (simp add: demo)
  have r: "x_clearReference demo_env (world (at_rest W3)) ?fuzzy
             \<lparr>forceRemote = Some True, fallbackToRemote = None\<rparr> (Some ''binary'') = Some ?new"
    by (simp add: demo W3_def)
  have up: "version ?old < version ?new"
    by (simp add: demo_ref_def)
  from Install_classification [OF f b fr l n r] up
  have "Install demo_env (Some calc_request) (at_rest W3)
        = enqueue demo_env [refSpec (x_defaultRepo demo_env (world (at_rest W3))) ?new ''binary'']
            (RemotePlan ?new (Some ?old) ''binary'' (skipInteraction (options calc_request)) Upgrade_msg
               \<lparr>localRef_msg = x_toString demo_env ?old, remoteRef_msg = x_toString demo_env ?new\<rparr>)
            (x_toString demo_env ?new @ '' is now installing'')
            ((at_rest W3)\<lparr>trace := trace (at_rest W3) @ Install_lookups ?fuzzy ?old ?new\<rparr>)"
    by blast
  then show ?thesis
    using up by (simp add: enqueue_def mutate_def emit_def updateState_def isTaskDone_def
        calc_request_def demo)
qed

text \<open>
  The first interaction of a run of the daemon, no handler being connected: when the
  reply's action is anything but \<open>yes\<close>, each of the three plans returns with the task
  \<open>Canceled\<close>, having emitted \<^verbatim>\<open>RequestInteraction\<close> and connected its handler and made no
  other call; with no reply it stays blocked. The remote plan leaves its handler
  connected.
\<close>

lemma isTaskDone_Canceled: "isTaskDone (subState (updateState Canceled t))"
  by (simp add: updateState_def isTaskDone_def)

lemma declined_upgrade_first_interaction:
  assumes no: "action \<noteq> ''yes''" and ask: "\<not> skipInteraction opts"
    and first: "reply_handlers (trace p) = 0"
  shows "installer_remote env remoteRef localRef curModule (skipInteraction opts) Upgrade_msg additionalMessage
           (Reply action) taskRef p
           = Returns (updateState Canceled taskRef)
               (emit ConnectReplyReceived (emit (RequestInteraction Upgrade_msg additionalMessage) p))
       \<and> installer_layer env packageRef layerFile module opts Upgrade_msg additionalMessage localRef
           (Reply action) taskRef p
           = Returns (updateState Canceled taskRef)
               (emit DisconnectReplyReceived
                  (emit ConnectReplyReceived (emit (RequestInteraction Upgrade_msg additionalMessage) p)))
       \<and> installer_uab env uuid layerInfos opts Upgrade_msg additionalMessage newAppRef oldAppRef
           (Reply action) taskRef p
           = Returns (updateState Canceled taskRef)
               (emit DisconnectReplyReceived
                  (emit ConnectReplyReceived (emit (RequestInteraction Upgrade_msg additionalMessage) p)))
       \<and> installer_remote env remoteRef localRef curModule (skipInteraction opts) Upgrade_msg additionalMessage
           NoReply taskRef p
           = Blocked (emit ConnectReplyReceived (emit (RequestInteraction Upgrade_msg additionalMessage) p))
       \<and> installer_layer env packageRef layerFile module opts Upgrade_msg additionalMessage localRef
           NoReply taskRef p
           = Blocked (emit ConnectReplyReceived (emit (RequestInteraction Upgrade_msg additionalMessage) p))
       \<and> installer_uab env uuid layerInfos opts Upgrade_msg additionalMessage newAppRef oldAppRef
           NoReply taskRef p
           = Blocked (emit ConnectReplyReceived (emit (RequestInteraction Upgrade_msg additionalMessage) p))
       \<and> (\<not> isTaskDone (subState taskRef) \<longrightarrow>
            updateState Canceled taskRef = \<lparr>state = Canceled, subState = AllDone\<rparr>)"
  using no ask first
  by (simp add: installer_remote_def installer_layer_def installer_uab_def request_interaction_def
      request_interaction_remote_def isTaskDone_Canceled Let_def) (simp add: updateState_def)

lemma reply_handlers_after_remote_upgrade:
  "reply_handlers (trace p) = 0 \<Longrightarrow>
   reply_handlers
     (trace (outcome_state
        (request_interaction_remote Upgrade_msg False additionalMessage (Reply action) taskRef p))) = 1"
  by (simp add: request_interaction_remote_def reply_handlers_def outcome_state_def emit_def Let_def)

lemma reply_after_remote_upgrade_is_undefined:
  assumes "0 < reply_handlers (trace p)" and "\<not> skipInteraction opts"
  shows "installer_remote env remoteRef localRef curModule (skipInteraction opts) Upgrade_msg additionalMessage
           (Reply action) taskRef p
           = Undefined (emit ConnectReplyReceived (emit (RequestInteraction Upgrade_msg additionalMessage) p))
       \<and> installer_layer env packageRef layerFile module opts Upgrade_msg additionalMessage localRef
           (Reply action) taskRef p
           = Undefined (emit ConnectReplyReceived (emit (RequestInteraction Upgrade_msg additionalMessage) p))
       \<and> installer_uab env uuid layerInfos opts Upgrade_msg additionalMessage newAppRef oldAppRef
           (Reply action) taskRef p
           = Undefined (emit ConnectReplyReceived (emit (RequestInteraction Upgrade_msg additionalMessage) p))"
  using assms
  by (simp add: installer_remote_def installer_layer_def installer_uab_def request_interaction_def
      request_interaction_remote_def Let_def)

text \<open>
  C5. Two upgrades of the application from the remote, one after the other, each declined
  with the reply \<open>no\<close>. The first plan emits \<^verbatim>\<open>RequestInteraction\<close>, connects its handler, and
  returns with the task \<open>Canceled\<close> and no install step; its handler stays connected (the
  remote plan has no \<^verbatim>\<open>disconnect\<close>, lines 1222 to 1230). The reply to the second plan runs
  that handler first, on the \<^verbatim>\<open>interactionReply\<close> and the \<^verbatim>\<open>loop\<close> of the first plan, which
  are destroyed: undefined behaviour, and the second task is not \<open>Canceled\<close>.
\<close>

theorem second_declined_upgrade_is_undefined:
  "installer_remote demo_env (demo_ref ''org.example.calc'' [1, 1, 0])
       (Some (demo_ref ''org.example.calc'' [1, 0, 0])) ''binary'' False Upgrade_msg
       \<lparr>localRef_msg = ''stable:org.example.calc/1.0.0/x86_64'',
        remoteRef_msg = ''stable:org.example.calc/1.1.0/x86_64''\<rparr>
       (Reply ''no'') \<lparr>state = Queued, subState = PreAction\<rparr> (at_rest W3)
     = Returns \<lparr>state = Canceled, subState = AllDone\<rparr>
         \<lparr>world = W3,
          trace = [RequestInteraction Upgrade_msg
                     \<lparr>localRef_msg = ''stable:org.example.calc/1.0.0/x86_64'',
                      remoteRef_msg = ''stable:org.example.calc/1.1.0/x86_64''\<rparr>,
                   ConnectReplyReceived],
          lockFd = - 1\<rparr>
   \<and> installer_remote demo_env (demo_ref ''org.example.calc'' [1, 1, 0])
       (Some (demo_ref ''org.example.calc'' [1, 0, 0])) ''binary'' False Upgrade_msg
       \<lparr>localRef_msg = ''stable:org.example.calc/1.0.0/x86_64'',
        remoteRef_msg = ''stable:org.example.calc/1.1.0/x86_64''\<rparr>
       (Reply ''no'') \<lparr>state = Queued, subState = PreAction\<rparr>
       \<lparr>world = W3,
        trace = [RequestInteraction Upgrade_msg
                   \<lparr>localRef_msg = ''stable:org.example.calc/1.0.0/x86_64'',
                    remoteRef_msg = ''stable:org.example.calc/1.1.0/x86_64''\<rparr>,
                 ConnectReplyReceived],
        lockFd = - 1\<rparr>
     = Undefined
         \<lparr>world = W3,
          trace = [RequestInteraction Upgrade_msg
                     \<lparr>localRef_msg = ''stable:org.example.calc/1.0.0/x86_64'',
                      remoteRef_msg = ''stable:org.example.calc/1.1.0/x86_64''\<rparr>,
                   ConnectReplyReceived,
                   RequestInteraction Upgrade_msg
                     \<lparr>localRef_msg = ''stable:org.example.calc/1.0.0/x86_64'',
                      remoteRef_msg = ''stable:org.example.calc/1.1.0/x86_64''\<rparr>,
                   ConnectReplyReceived],
          lockFd = - 1\<rparr>"
  by (simp add: installer_remote_def request_interaction_remote_def reply_handlers_def emit_def
      at_rest_def updateState_def isTaskDone_def Let_def)

text \<open>
  C6. \<^verbatim>\<open>Uninstall(parameters)\<close> with parameters that give a fuzzy reference. If the
  reference does not resolve locally, the answer is the "not installed" error. If it
  resolves, the lock is obtained, the inventory is readable and some running container's
  application string is the reference's string, the answer is the "currently running"
  error of type \<open>notification\<close>. In both cases no task is registered (the calls made are
  the lookup, the lock and the inventory) and the world is unchanged.
\<close>

theorem Uninstall_refusals:
  assumes fuzzy: "fuzzyReferenceFromPackage env (uninstall_package paras) = Some fuzzyRef"
  shows "(x_clearReference env (world p) fuzzyRef \<lparr>forceRemote = None, fallbackToRemote = Some False\<rparr> None = None \<longrightarrow>
            fst (Uninstall env (Some paras) p)
              = (CommonResult (- 1) (x_fuzzyToString env fuzzyRef @ '' not installed.'') ''display'', None)
            \<and> world (snd (Uninstall env (Some paras) p)) = world p
            \<and> trace (snd (Uninstall env (Some paras) p))
              = trace p @ [ClearReference fuzzyRef \<lparr>forceRemote = None, fallbackToRemote = Some False\<rparr> None None])
       \<and> (\<forall>ref containers.
            x_clearReference env (world p) fuzzyRef \<lparr>forceRemote = None, fallbackToRemote = Some False\<rparr> None = Some ref
            \<and> x_open env (world p) \<noteq> - 1 \<and> x_fcntl_lock env (world p) (x_open env (world p))
            \<and> x_getAllRunningContainers env (world p) = Some containers
            \<and> list_ex (\<lambda>container. app container = x_toString env ref) containers \<longrightarrow>
            fst (Uninstall env (Some paras) p)
              = (CommonResult (- 1)
                   ''The application is currently running and cannot be uninstalled. Please turn off the application and try again.''
                   ''notification'', None)
            \<and> world (snd (Uninstall env (Some paras) p)) = world p
            \<and> trace (snd (Uninstall env (Some paras) p))
              = trace p @ [ClearReference fuzzyRef \<lparr>forceRemote = None, fallbackToRemote = Some False\<rparr> None (Some ref),
                           LockRepo True, GetAllRunningContainers]
                @ (if x_fcntl_unlock env (world p) (x_open env (world p))
                   then [UnlockRepo True] else [UnlockRepo False, Log Critical]))"
  using fuzzy
  by (auto simp: Uninstall_def isRefBusy_def calls Let_def
      split: prod.splits option.splits bool.splits)

theorem Uninstall_refusals_witness:
  "fst (Uninstall demo_env (Some calc_1_0_request) (at_rest W1))
     = (CommonResult (- 1)
          ''The application is currently running and cannot be uninstalled. Please turn off the application and try again.''
          ''notification'', None)
   \<and> world (snd (Uninstall demo_env (Some calc_1_0_request) (at_rest W1))) = W1"
proof -
  let ?fuzzy = "\<lparr>fuzzy_channel = None, fuzzy_id = ''org.example.calc'',
                  fuzzy_version = Some [1, 0, 0], fuzzy_arch = None\<rparr>"
  have f: "fuzzyReferenceFromPackage demo_env (uninstall_package calc_1_0_request) = Some ?fuzzy"
    by (simp add: fuzzyReferenceFromPackage_def calc_1_0_request_def demo)
  have busy: "x_clearReference demo_env (world (at_rest W1)) ?fuzzy \<lparr>forceRemote = None, fallbackToRemote = Some False\<rparr> None
                = Some (demo_ref ''org.example.calc'' [1, 0, 0])
            \<and> x_open demo_env (world (at_rest W1)) \<noteq> - 1
            \<and> x_fcntl_lock demo_env (world (at_rest W1)) (x_open demo_env (world (at_rest W1)))
            \<and> x_getAllRunningContainers demo_env (world (at_rest W1)) = Some [\<lparr>app = ''stable:org.example.calc/1.0.0/x86_64''\<rparr>]
            \<and> list_ex (\<lambda>container. app container = x_toString demo_env (demo_ref ''org.example.calc'' [1, 0, 0]))
                 [\<lparr>app = ''stable:org.example.calc/1.0.0/x86_64''\<rparr>]"
    by (simp add: demo W1_def)
  from Uninstall_refusals [OF f, of "at_rest W1"] busy show ?thesis
    by (auto simp: at_rest_def)
qed

text \<open>
  C9, as the code has it. A layer file whose metadata declares a module other than
  \<open>binary\<close> and \<open>runtime\<close> is refused at once (lines 521 to 525): the answer is error
  \<open>-1\<close>, "The current version does not support the develop module installation.", no task
  is registered and nothing is imported; reading the file is the only call made.
\<close>

theorem installFromLayer_rejects_other_modules:
  assumes "x_layerFileNew env (world p) fd = Some layerFile"
    and "metaInfo layerFile = Some meta"
    and "x_parsePackageInfo env meta = Some packageInfo"
    and "packageInfoV2Module packageInfo \<noteq> ''binary''"
    and "packageInfoV2Module packageInfo \<noteq> ''runtime''"
  shows "installFromLayer env fd opts p
           = Returns (CommonResult (- 1)
                        ''The current version does not support the develop module installation.''
                        ''display'', None)
               (emit (LayerFileNew fd) p)"
  using assms by (simp add: installFromLayer_def query_def)

theorem installFromLayer_rejects_other_modules_witness:
  "x_layerFileNew demo_env W9 0 = Some \<lparr>symLinkTarget = ''/tmp/calc_develop.layer'', metaInfo = Some ''develop''\<rparr>
   \<and> installFromLayer demo_env 0 \<lparr>force = True, skipInteraction = True\<rparr> (at_rest W9)
     = Returns (CommonResult (- 1)
                  ''The current version does not support the develop module installation.''
                  ''display'', None)
         (emit (LayerFileNew 0) (at_rest W9))"
proof -
  have f: "x_layerFileNew demo_env (world (at_rest W9)) 0
           = Some \<lparr>symLinkTarget = ''/tmp/calc_develop.layer'', metaInfo = Some ''develop''\<rparr>"
    by (simp add: demo W9_def)
  have m: "metaInfo \<lparr>symLinkTarget = ''/tmp/calc_develop.layer'', metaInfo = Some ''develop''\<rparr> = Some ''develop''"
    by simp
  have i: "x_parsePackageInfo demo_env ''develop'' = Some (demo_package ''org.example.calc'' ''1.1.0'' ''app'' ''develop'' None)"
    by (simp add: demo_env_def)
  have b: "packageInfoV2Module (demo_package ''org.example.calc'' ''1.1.0'' ''app'' ''develop'' None) \<noteq> ''binary''"
    and r: "packageInfoV2Module (demo_package ''org.example.calc'' ''1.1.0'' ''app'' ''develop'' None) \<noteq> ''runtime''"
    by (simp_all add: demo_package_def)
  from installFromLayer_rejects_other_modules [OF f m i b r] f show ?thesis
    by (simp add: at_rest_def)
qed

text \<open>
  The claim C9 itself fails: a layer file of module \<open>develop\<close> is not ingested, the request
  is rejected.
\<close>

theorem installFromLayer_develop_counterexample:
  "installFromLayer demo_env 0 \<lparr>force = False, skipInteraction = False\<rparr> (at_rest W9)
     = Returns (CommonResult (- 1)
                  ''The current version does not support the develop module installation.''
                  ''display'', None)
         \<lparr>world = W9, trace = [LayerFileNew 0], lockFd = - 1\<rparr>"
  by (simp add: installFromLayer_def query_def emit_def demo W9_def)

text \<open>
  C1. A deferred-uninstall tick on a store whose only layer item is the deleted version
  1.0.0 of an application that is not running: the tick unexports the reference, removes
  its cache and its layer item and merges the modules; the lookup of the newest remaining
  local reference of the same id finds none, the failure is logged, and the failed result
  is dereferenced for \<^verbatim>\<open>exportReference\<close> all the same (line 458). The tick does not
  return, and the lock is not released.
\<close>

theorem deferredUninstall_orphan:
  "deferredUninstall demo_env (at_rest W_orphan)
     = Undefined
         \<lparr>world = demo_store [] [] [],
          trace =
            [LockRepo True,
             ListLocalBy \<lparr>query_id = None, query_channel = None, query_version = None,
                          query_deleted = Some True\<rparr>,
             GetAllRunningContainers,
             UnexportReference (demo_ref ''org.example.calc'' [1, 0, 0]),
             RemoveCache (demo_ref ''org.example.calc'' [1, 0, 0]),
             GetLayerItem (demo_ref ''org.example.calc'' [1, 0, 0]),
             RemoveAll ''org.example.calc-1.0.0'',
             Remove (demo_ref ''org.example.calc'' [1, 0, 0]) ''binary'' None,
             MergeModules,
             ClearReference
               \<lparr>fuzzy_channel = Some ''stable'', fuzzy_id = ''org.example.calc'',
                fuzzy_version = None, fuzzy_arch = Some ''x86_64''\<rparr>
               \<lparr>forceRemote = None, fallbackToRemote = Some False\<rparr> None None,
             Log Critical],
          lockFd = 3\<rparr>"
proof -
  have lock: "lockRepo demo_env (at_rest W_orphan)
              = (True, \<lparr>world = W_orphan, trace = [LockRepo True], lockFd = 3\<rparr>)"
    by (simp add: calls demo W_orphan_def)
  have listed: "x_listLocalBy demo_env W_orphan
                  \<lparr>query_id = None, query_channel = None, query_version = None, query_deleted = Some True\<rparr>
                = Some [fst (demo_layer ''org.example.calc'' ''1.0.0'' ''app'' ''binary'' None True)]"
    by (simp add: demo W_orphan_def)
  have grouped: "group_uninstalled demo_env
                   [fst (demo_layer ''org.example.calc'' ''1.0.0'' ''app'' ''binary'' None True)] []
                 = Some [(''stable:org.example.calc/1.0.0/x86_64'',
                          [fst (demo_layer ''org.example.calc'' ''1.0.0'' ''app'' ''binary'' None True)])]"
    by (simp add: demo)
  have inventory: "x_getAllRunningContainers demo_env W_orphan = Some []"
    by (simp add: demo W_orphan_def)
  have body: "deferredUninstall_locked demo_env \<lparr>world = W_orphan, trace = [LockRepo True], lockFd = 3\<rparr>
              = uninstall_groups demo_env
                  [(''stable:org.example.calc/1.0.0/x86_64'',
                    [fst (demo_layer ''org.example.calc'' ''1.0.0'' ''app'' ''binary'' None True)])]
                  \<lparr>world = W_orphan,
                   trace = [LockRepo True,
                            ListLocalBy \<lparr>query_id = None, query_channel = None, query_version = None,
                                         query_deleted = Some True\<rparr>,
                            GetAllRunningContainers],
                   lockFd = 3\<rparr>"
    by (simp add: deferredUninstall_locked_def repo_listLocalBy_def getAllRunningContainers_def
        query_def emit_def listed grouped inventory erase_running_def
        del: One_nat_def group_uninstalled.simps uninstall_groups.simps)
  show ?thesis
    by (simp add: deferredUninstall_def lock body orphan_groups
        del: One_nat_def uninstall_groups.simps)
qed

text \<open>
  C8. \<^verbatim>\<open>isRefBusy\<close> and \<^verbatim>\<open>deferredUninstall\<close> take the repository lock before their first call
  on the container inventory, the layer store or a cache, make every such call while they
  hold the lock, and have released it whenever they return, provided the unlock call
  itself succeeds. The entry point \<^verbatim>\<open>Install\<close> makes no lock call at all and leaves
  \<^verbatim>\<open>lockFd\<close> alone: it keeps the lock discipline only on the runs in which it does not
  reach the layer store.
\<close>

theorem lock_is_taken_by_isRefBusy_and_deferredUninstall:
  assumes unlock: "\<And>w fd. x_fcntl_unlock env w fd"
  shows "lock_discipline False (new_events p (snd (isRefBusy env ref p)))
       \<and> (\<forall>p'. deferredUninstall env p = Returns () p' \<longrightarrow> lock_discipline False (new_events p p'))
       \<and> extends unlocked_event p (snd (Install env parameters p))
       \<and> lock_discipline False (new_events p (snd (Install env parameters p)))
           = list_all (\<lambda>e. \<not> store_access e) (new_events p (snd (Install env parameters p)))"
proof (intro conjI)
  show "extends unlocked_event p (snd (Install env parameters p))"
    by (rule Install_unlocked)
  then have "list_all unlocked_event (new_events p (snd (Install env parameters p)))"
    by (auto simp: extends_def new_events_def)
  then show "lock_discipline False (new_events p (snd (Install env parameters p)))
           = list_all (\<lambda>e. \<not> store_access e) (new_events p (snd (Install env parameters p)))"
    by (rule unlocked_discipline)
next
  show "lock_discipline False (new_events p (snd (isRefBusy env ref p)))"
    using unlock
    by (auto simp: isRefBusy_def calls new_events_def Let_def store_access_def
        split: prod.splits option.splits)
next
  show "\<forall>p'. deferredUninstall env p = Returns () p' \<longrightarrow> lock_discipline False (new_events p p')"
  proof (intro allI impI)
    fix p' assume run: "deferredUninstall env p = Returns () p'"
    obtain ok p1 where lock: "lockRepo env p = (ok, p1)" by (cases "lockRepo env p")
    note l = lockRepo_cases [OF lock]
    show "lock_discipline False (new_events p p')"
    proof (cases ok)
      case False
      with run lock l show ?thesis
        by (auto simp: deferredUninstall_def new_events_def emit_def store_access_def)
    next
      case True
      from deferredUninstall_locked_unlocked [of p1 env] obtain new where
        new: "trace (outcome_state (deferredUninstall_locked env p1)) = trace p1 @ new"
          "list_all unlocked_event new"
          "lockFd (outcome_state (deferredUninstall_locked env p1)) = lockFd p1"
        by (auto simp: extends_def)
      from run lock True obtain p2 where
        body: "deferredUninstall_locked env p1 = Returns () p2" and p': "p' = unlock_finally env p2"
        by (auto simp: deferredUninstall_def split: outcome.splits)
      have p2: "trace p2 = trace p1 @ new" "lockFd p2 = lockFd p1"
        using new body by (simp_all add: outcome_state_def)
      have "trace p' = trace p @ LockRepo True # new @ [UnlockRepo True]"
        using p' p2 l True unlock unlock_finally_trace [of p2 env] by simp
      then show ?thesis
        using new(2) by (simp add: new_events_def lock_discipline_held_append)
    qed
  qed
qed

text \<open>
  The tick and the busy check on the store with the deleted version 1.0.0, and the
  request to install the application on the same store.
\<close>

theorem lock_is_taken_by_isRefBusy_and_deferredUninstall_witness:
  "(\<forall>w fd. x_fcntl_unlock demo_env w fd)
   \<and> lock_discipline False
        (new_events (at_rest W_deferred)
           (snd (isRefBusy demo_env (demo_ref ''org.example.calc'' [1, 0, 0]) (at_rest W_deferred))))
   \<and> (\<exists>p'. deferredUninstall demo_env (at_rest W_deferred) = Returns () p'
           \<and> lock_discipline False (new_events (at_rest W_deferred) p'))
   \<and> extends unlocked_event (at_rest W_deferred)
        (snd (Install demo_env (Some calc_request) (at_rest W_deferred)))
   \<and> lock_discipline False
        (new_events (at_rest W_deferred) (snd (Install demo_env (Some calc_request) (at_rest W_deferred))))
     = list_all (\<lambda>e. \<not> store_access e)
        (new_events (at_rest W_deferred) (snd (Install demo_env (Some calc_request) (at_rest W_deferred))))"
proof -
  have unlock: "x_fcntl_unlock demo_env w fd" for w fd
    by (simp add: demo_env_def)
  from lock_is_taken_by_isRefBusy_and_deferredUninstall
         [where env = demo_env and p = "at_rest W_deferred"
            and ref = "demo_ref ''org.example.calc'' [1, 0, 0]"
            and parameters = "Some calc_request", OF unlock]
  show ?thesis
    using unlock deferredUninstall_deferred by blast
qed

text \<open>
  The entry point \<^verbatim>\<open>Install\<close> resolves the requested package in the layer store
  (\<^verbatim>\<open>clearReference\<close>, lines 1155 and 1167) without taking the lock.
\<close>

theorem Install_without_lock_counterexample:
  "\<not> lock_discipline False (new_events (at_rest W3) (snd (Install demo_env (Some calc_request) (at_rest W3))))"
  by (simp add: Install_def Install_classify_def fuzzyReferenceFromPackage_def calc_request_def
      enqueue_def repo_clearReference_def query_def mutate_def emit_def new_events_def
      store_access_def demo W3_def Let_def)







text \<open>
  C10. When \<^verbatim>\<open>LINGLONG_DEFERRED_TIMEOUT\<close> is unset, or \<^verbatim>\<open>std::stoi\<close> throws on its value
  (no digits: invalid; outside \<^verbatim>\<open>int\<close>: out of range), the constructor still returns, the
  timer interval is the default of 3600 seconds, and the only trace of a failed parse is
  one warning line in the log.
\<close>

theorem deferred_timeout_default:
  assumes "deferredTimeOutEnv = None \<or> (\<exists>str e. deferredTimeOutEnv = Some str \<and> stoi str = Inl e)"
  shows "\<exists>d. PackageManager_ctor deferredTimeOutEnv = Inr d \<and> deferredTimeOut d = 3600
           \<and> ctor_log d = (if deferredTimeOutEnv = None then [Info] else [Warning, Info])"
proof -
  from assms consider (unset) "deferredTimeOutEnv = None"
    | (bad) str e where "deferredTimeOutEnv = Some str" "stoi str = Inl e"
    by blast
  then show ?thesis
  proof cases
    case unset
    then show ?thesis by (simp add: PackageManager_ctor_def)
  next
    case bad
    then show ?thesis by (cases e) (simp_all add: PackageManager_ctor_def)
  qed
qed

lemma stoi_abc: "stoi ''abc'' = Inl invalid_argument"
  by (simp add: stoi_def isspace_c_def isdigit_c_def)

theorem deferred_timeout_default_witness:
  "stoi ''abc'' = Inl invalid_argument
   \<and> PackageManager_ctor (Some ''abc'') = Inr \<lparr>deferredTimeOut = 3600, ctor_log = [Warning, Info]\<rparr>"
proof -
  have h: "Some ''abc'' = None \<or> (\<exists>str e. Some ''abc'' = Some str \<and> stoi str = Inl e)"
    using stoi_abc by blast
  from deferred_timeout_default [OF h] show ?thesis
    using stoi_abc by auto
qed

end
